theory Spec2Isabelle
  imports
    Complex_Main
    "HOL-Library.Char_ord"
    "HOL-Library.List_Lexorder"
    "HOL-Library.Multiset"
    "HOL-Library.Option_ord"
    "HOL-Library.Product_Lexorder"
begin

section \<open>claude-memory-mcp 2.7.0: the record store and the tool-call handler\<close>

text \<open>
  The embedded program is the revision of the server that declares version 2.7.0: five
  SQLite tables, a set of prepared statements and one request handler that switches on the
  tool name inside a \<^verbatim>\<open>try\<close>/\<^verbatim>\<open>catch\<close>.

  Conventions of the embedding.
  \<^item> A table is the list of its rows in rowid order; a row is a record with one field per
    column, a nullable column being an \<open>option\<close> (\<open>None\<close> is SQL \<open>NULL\<close>).
  \<^item> \<open>TEXT\<close> values are strings and compare bytewise, as SQLite's \<open>BINARY\<close> collation does.
  \<^item> A JavaScript number is the rational it denotes (every finite double is one).
  \<^item> Tool arguments are typed as the tool's \<open>inputSchema\<close> declares them: a required
    argument is a value, an optional one an \<open>option\<close> (\<open>None\<close> is \<^verbatim>\<open>undefined\<close>).
  \<^item> An exception is a value of type \<open>exn\<close>; a \<^verbatim>\<open>case\<close> of the switch returns
    \<open>exn + string\<close> together with the store it leaves behind.
  \<^item> What the runtime supplies (the clock, date parsing, locale formatting, the switch
    cases that are not embedded here) is a field of the record \<open>env\<close>.
\<close>

subsection \<open>Text helpers\<close>

definition digit_char :: "nat \<Rightarrow> char" where
  "digit_char n = ''0123456789'' ! (n mod 10)"

fun show_nat :: "nat \<Rightarrow> string" where
  "show_nat n = (if n < 10 then [digit_char n] else show_nat (n div 10) @ [digit_char n])"

declare show_nat.simps [simp del]

definition show_int :: "int \<Rightarrow> string" where
  "show_int i = (if i < 0 then ''-'' @ show_nat (nat (- i)) else show_nat (nat i))"

definition newline :: string where
  "newline = [CHR 0x0A]"

definition quote :: string where
  "quote = [CHR 0x27]"

fun join :: "string \<Rightarrow> string list \<Rightarrow> string" where
  "join sep [] = []"
| "join sep [x] = x"
| "join sep (x # y # ys) = x @ sep @ join sep (y # ys)"

text \<open>Zero-padded decimal fields of a timestamp.\<close>

definition pad2 :: "int \<Rightarrow> string" where
  "pad2 i = [digit_char (nat (i div 10)), digit_char (nat i)]"

definition pad3 :: "int \<Rightarrow> string" where
  "pad3 i = [digit_char (nat (i div 100)), digit_char (nat (i div 10)), digit_char (nat i)]"

definition pad4 :: "int \<Rightarrow> string" where
  "pad4 i = [digit_char (nat (i div 1000)), digit_char (nat (i div 100)),
             digit_char (nat (i div 10)), digit_char (nat i)]"

subsection \<open>JavaScript values\<close>

text \<open>
  \<^verbatim>\<open>x || d\<close> on an optional string: \<^verbatim>\<open>undefined\<close>, \<^verbatim>\<open>null\<close> and the empty string are
  falsy. On an optional number: \<^verbatim>\<open>undefined\<close> and \<open>0\<close> are falsy.
\<close>

definition truthy :: "string option \<Rightarrow> bool" where
  "truthy v = (case v of None \<Rightarrow> False | Some s \<Rightarrow> s \<noteq> [])"

definition or_null :: "string option \<Rightarrow> string option" where
  "or_null v = (if truthy v then v else None)"

definition or_str :: "string option \<Rightarrow> string \<Rightarrow> string" where
  "or_str v d = (case v of None \<Rightarrow> d | Some s \<Rightarrow> if s = [] then d else s)"

definition or_num :: "'a::zero option \<Rightarrow> 'a \<Rightarrow> 'a" where
  "or_num v d = (case v of None \<Rightarrow> d | Some n \<Rightarrow> if n = 0 then d else n)"

text \<open>The result of an arithmetic expression that may be \<^verbatim>\<open>Infinity\<close> or \<^verbatim>\<open>NaN\<close>.\<close>

datatype number = Num rat | Infinity | NaN

fun num_le :: "number \<Rightarrow> rat \<Rightarrow> bool" where
  "num_le (Num r) b = (r \<le> b)"
| "num_le Infinity b = False"
| "num_le NaN b = False"

datatype exn = ReferenceError string | TypeError string | RangeError string | SqliteError string

fun message :: "exn \<Rightarrow> string" where
  "message (ReferenceError m) = m"
| "message (TypeError m) = m"
| "message (RangeError m) = m"
| "message (SqliteError m) = m"

subsection \<open>Timestamps\<close>

text \<open>
  Both clocks are UTC. SQLite's \<^verbatim>\<open>CURRENT_TIMESTAMP\<close> is the text
  \<^verbatim>\<open>YYYY-MM-DD HH:MM:SS\<close>; JavaScript's \<^verbatim>\<open>toISOString\<close> is
  \<^verbatim>\<open>YYYY-MM-DDTHH:MM:SS.sssZ\<close>, with a sign and six digits for a year outside 0000 to
  9999. Both are computed from a count of milliseconds since 1970-01-01T00:00:00Z.
\<close>

definition civil_from_days :: "int \<Rightarrow> int \<times> int \<times> int" where
  "civil_from_days z0 =
     (let z = z0 + 719468;
          era = z div 146097;
          doe = z - era * 146097;
          yoe = (doe - doe div 1460 + doe div 36524 - doe div 146096) div 365;
          doy = doe - (365 * yoe + yoe div 4 - yoe div 100);
          mp = (5 * doy + 2) div 153;
          d = doy - (153 * mp + 2) div 5 + 1;
          m = (if mp < 10 then mp + 3 else mp - 9);
          y = yoe + era * 400 + (if m \<le> 2 then 1 else 0)
      in (y, m, d))"

definition pad6 :: "int \<Rightarrow> string" where
  "pad6 i = [digit_char (nat (i div 100000)), digit_char (nat (i div 10000))] @ pad4 i"

definition year_text :: "int \<Rightarrow> string" where
  "year_text y =
     (if 0 \<le> y \<and> y \<le> 9999 then pad4 y
      else (if y < 0 then ''-'' else ''+'') @ pad6 \<bar>y\<bar>)"

definition date_text :: "int \<Rightarrow> string" where
  "date_text ms =
     (case civil_from_days (ms div 86400000) of
        (y, m, d) \<Rightarrow> year_text y @ ''-'' @ pad2 m @ ''-'' @ pad2 d)"

definition time_text :: "int \<Rightarrow> string" where
  "time_text ms =
     (let s = (ms mod 86400000) div 1000
      in pad2 (s div 3600) @ '':'' @ pad2 ((s mod 3600) div 60) @ '':'' @ pad2 (s mod 60))"

definition sqlite_timestamp :: "int \<Rightarrow> string" where
  "sqlite_timestamp ms = date_text ms @ '' '' @ time_text ms"

text \<open>\<^verbatim>\<open>new Date(ms).toISOString()\<close>; a time value beyond 8.64e15 is an invalid date.\<close>

definition toISOString :: "int \<Rightarrow> exn + string" where
  "toISOString ms =
     (if \<bar>ms\<bar> > 8640000000000000 then Inl (RangeError ''Invalid time value'')
      else Inr (date_text ms @ ''T'' @ time_text ms @ ''.'' @ pad3 (ms mod 1000) @ ''Z''))"

text \<open>
  Reading a text of the shape \<^verbatim>\<open>YYYY-MM-DD HH:MM:SS\<close> back: the time value of its fields,
  taken as they stand. It is defined for the texts that name a calendar date and a time of
  day, as every \<^verbatim>\<open>CURRENT_TIMESTAMP\<close> does.
\<close>

definition digits_value :: "string \<Rightarrow> int option" where
  "digits_value ds =
     (if ds \<noteq> [] \<and> list_all (\<lambda>c. CHR ''0'' \<le> c \<and> c \<le> CHR ''9'') ds
      then Some (foldl (\<lambda>n c. 10 * n + (of_char c - 48)) 0 ds)
      else None)"

definition days_from_civil :: "int \<Rightarrow> int \<Rightarrow> int \<Rightarrow> int" where
  "days_from_civil y0 m d =
     (let y = (if m \<le> 2 then y0 - 1 else y0);
          era = y div 400;
          yoe = y - era * 400;
          doy = (153 * (if m > 2 then m - 3 else m + 9) + 2) div 5 + d - 1;
          doe = yoe * 365 + yoe div 4 - yoe div 100 + doy
      in era * 146097 + doe - 719468)"

definition days_in_month :: "int \<Rightarrow> int \<Rightarrow> int" where
  "days_in_month y m =
     (if m = 2 then (if y mod 4 = 0 \<and> (0 < y mod 100 \<or> y mod 400 = 0) then 29 else 28)
      else if m = 4 \<or> m = 6 \<or> m = 9 \<or> m = 11 then 30 else 31)"

definition timestamp_value :: "string \<Rightarrow> int option" where
  "timestamp_value s =
     (if length s = 19 \<and> s ! 4 = CHR ''-'' \<and> s ! 7 = CHR ''-'' \<and> s ! 10 = CHR '' '' \<and>
         s ! 13 = CHR '':'' \<and> s ! 16 = CHR '':''
      then (case (digits_value (take 4 s), digits_value (take 2 (drop 5 s)),
                  digits_value (take 2 (drop 8 s)), digits_value (take 2 (drop 11 s)),
                  digits_value (take 2 (drop 14 s)), digits_value (take 2 (drop 17 s))) of
              (Some y, Some m, Some d, Some h, Some mi, Some sec) \<Rightarrow>
                (if 1 \<le> m \<and> m \<le> 12 \<and> 1 \<le> d \<and> d \<le> days_in_month y m \<and>
                    h < 24 \<and> mi < 60 \<and> sec < 60
                 then Some (days_from_civil y m d * 86400000 + h * 3600000 + mi * 60000 +
                            sec * 1000)
                 else None)
            | _ \<Rightarrow> None)
      else None)"

subsection \<open>The five tables\<close>

text \<open>
  Columns in the order the \<^verbatim>\<open>CREATE TABLE\<close> statements and the later
  \<^verbatim>\<open>ALTER TABLE ... ADD COLUMN\<close> migrations give them. \<open>priority\<close> is declared
  \<^verbatim>\<open>INTEGER DEFAULT 0\<close>; SQLite's integer affinity keeps a bound value that is not a whole
  number as the real it is, so the column holds a rational.
\<close>

record decision =
  d_id :: int
  d_project :: string
  d_date :: string
  d_decision :: string
  d_rationale :: "string option"
  d_created_at :: "string option"
  d_synced_at :: "string option"
  d_archived :: "int option"
  d_priority :: "rat option"
  d_category :: "string option"
  d_access_count :: "int option"
  d_last_accessed :: "string option"

record error_row =
  e_id :: int
  e_project :: string
  e_error_pattern :: string
  e_solution :: string
  e_context :: "string option"
  e_created_at :: "string option"
  e_synced_at :: "string option"
  e_archived :: "int option"
  e_priority :: "rat option"
  e_category :: "string option"
  e_access_count :: "int option"
  e_last_accessed :: "string option"

record context_row =
  c_id :: int
  c_project :: string
  c_key :: string
  c_value :: string
  c_updated_at :: "string option"
  c_synced_at :: "string option"

record learning =
  l_id :: int
  l_project :: "string option"
  l_category :: string
  l_content :: string
  l_created_at :: "string option"
  l_synced_at :: "string option"
  l_archived :: "int option"
  l_priority :: "rat option"
  l_access_count :: "int option"
  l_last_accessed :: "string option"

record session =
  s_id :: int
  s_project :: string
  s_workspace :: "string option"
  s_task :: string
  s_status :: "string option"
  s_notes :: "string option"
  s_updated_at :: "string option"
  s_synced_at :: "string option"

text \<open>
  The database: the five tables and, for the two tables the embedded cases insert into,
  the \<^verbatim>\<open>AUTOINCREMENT\<close> counter SQLite keeps in \<^verbatim>\<open>sqlite_sequence\<close>.
\<close>

record store =
  decisions :: "decision list"
  errors :: "error_row list"
  context_rows :: "context_row list"
  learnings :: "learning list"
  sessions :: "session list"
  context_seq :: int
  sessions_seq :: int

definition empty_store :: store where
  "empty_store = \<lparr>decisions = [], errors = [], context_rows = [], learnings = [],
     sessions = [], context_seq = 0, sessions_seq = 0\<rparr>"

subsection \<open>SQL\<close>

text \<open>
  \<^verbatim>\<open>UPDATE t SET ... WHERE w\<close> and \<^verbatim>\<open>DELETE FROM t WHERE w\<close> return the new table and
  \<^verbatim>\<open>changes\<close>, the number of rows the \<^verbatim>\<open>WHERE\<close> clause selected.
\<close>

definition sql_update :: "('r \<Rightarrow> bool) \<Rightarrow> ('r \<Rightarrow> 'r) \<Rightarrow> 'r list \<Rightarrow> 'r list \<times> nat" where
  "sql_update w f rows = (map (\<lambda>r. if w r then f r else r) rows, length (filter w rows))"

definition sql_delete :: "('r \<Rightarrow> bool) \<Rightarrow> 'r list \<Rightarrow> 'r list \<times> nat" where
  "sql_delete w rows = (filter (\<lambda>r. \<not> w r) rows, length (filter w rows))"

text \<open>
  \<^verbatim>\<open>ORDER BY k1 DESC, k2 DESC\<close> on the key \<open>(k1, k2)\<close>: pairs compare lexicographically,
  \<open>NULL\<close> (\<open>None\<close>) is below every value. Rows with equal keys stay in rowid order, the
  oldest first, as SQLite's sorter leaves them.
\<close>

definition order_by_desc :: "('r \<Rightarrow> 'k::linorder) \<Rightarrow> 'r list \<Rightarrow> 'r list" where
  "order_by_desc k rows = rev (sort_key k (rev rows))"

text \<open>\<^verbatim>\<open>LIMIT n\<close> for a whole number \<open>n\<close>: a negative \<open>n\<close> is no limit.\<close>

definition limit_rows :: "int \<Rightarrow> 'r list \<Rightarrow> 'r list" where
  "limit_rows n rows = (if n < 0 then rows else take (nat n) rows)"

text \<open>
  \<^verbatim>\<open>LIMIT ?\<close> with a JavaScript number bound to it. The number arrives as a real; SQLite
  takes it as the limit when it is a whole number strictly between the smallest and the
  largest 64-bit integer, and otherwise raises \<^verbatim>\<open>datatype mismatch\<close> before any row is read.
\<close>

definition fits_int64 :: "rat \<Rightarrow> bool" where
  "fits_int64 n = (n = of_int \<lfloor>n\<rfloor> \<and> - (2 ^ 63) < \<lfloor>n\<rfloor> \<and> \<lfloor>n\<rfloor> < 2 ^ 63 - 1)"

definition sql_limit :: "rat \<Rightarrow> 'r list \<Rightarrow> exn + 'r list" where
  "sql_limit n rows =
     (if fits_int64 n then Inr (limit_rows \<lfloor>n\<rfloor> rows)
      else Inl (SqliteError ''datatype mismatch''))"

definition ascii_lower :: "char \<Rightarrow> char" where
  "ascii_lower c = (if CHR ''A'' \<le> c \<and> c \<le> CHR ''Z'' then char_of (of_char c + (32::nat)) else c)"

text \<open>
  \<^verbatim>\<open>x LIKE pattern\<close>: \<^verbatim>\<open>%\<close> matches any run of characters, \<^verbatim>\<open>_\<close> one character,
  any other character itself, ASCII letters without regard to case.
\<close>

fun like_match :: "string \<Rightarrow> string \<Rightarrow> bool" where
  "like_match [] s = (s = [])"
| "like_match (p # ps) [] = (p = CHR ''%'' \<and> like_match ps [])"
| "like_match (p # ps) (c # cs) =
     (if p = CHR ''%'' then like_match ps (c # cs) \<or> like_match (p # ps) cs
      else (p = CHR ''_'' \<or> ascii_lower p = ascii_lower c) \<and> like_match ps cs)"

definition sql_like :: "string \<Rightarrow> string \<Rightarrow> bool" where
  "sql_like x pattern = like_match pattern x"

text \<open>On a nullable column \<^verbatim>\<open>LIKE\<close> yields \<open>NULL\<close>, which a \<^verbatim>\<open>WHERE\<close> treats as false.\<close>

definition sql_like_opt :: "string option \<Rightarrow> string \<Rightarrow> bool" where
  "sql_like_opt x pattern = (case x of None \<Rightarrow> False | Some s \<Rightarrow> sql_like s pattern)"

text \<open>\<^verbatim>\<open>(archived IS NULL OR archived = 0)\<close>\<close>

definition not_archived :: "int option \<Rightarrow> bool" where
  "not_archived a = (a = None \<or> a = Some 0)"

text \<open>\<^verbatim>\<open>created_at < ?\<close>, a comparison of two texts; \<open>NULL\<close> on the left is not less.\<close>

definition text_before :: "string option \<Rightarrow> string \<Rightarrow> bool" where
  "text_before t bound = (case t of None \<Rightarrow> False | Some s \<Rightarrow> s < bound)"

text \<open>
  The rowid of an inserted row of an \<^verbatim>\<open>AUTOINCREMENT\<close> table: one more than the largest
  rowid the table has ever held.
\<close>

definition next_rowid :: "int \<Rightarrow> int list \<Rightarrow> int" where
  "next_rowid seq ids = fold max ids seq + 1"

subsection \<open>Tool arguments and the runtime\<close>

text \<open>
  The arguments of the embedded tools, one field per argument name. \<open>arg_id\<close> and
  \<open>arg_days\<close> are whole numbers, \<open>arg_limit\<close> and \<open>arg_priority\<close> are any number.
\<close>

record args =
  arg_project :: string
  arg_search :: "string option"
  arg_category :: "string option"
  arg_limit :: "rat option"
  arg_error :: string
  arg_key :: string
  arg_value :: string
  arg_workspace :: "string option"
  arg_task :: string
  arg_status :: "string option"
  arg_notes :: "string option"
  arg_type :: string
  arg_id :: int
  arg_priority :: rat
  arg_days :: "int option"
  arg_include_archived :: "bool option"

text \<open>The object \<^verbatim>\<open>export_memory\<close> hands to \<^verbatim>\<open>JSON.stringify\<close>.\<close>

record export_data =
  x_project :: string
  x_exported_at :: string
  x_decisions :: "decision list"
  x_errors :: "error_row list"
  x_context :: "context_row list"
  x_learnings :: "learning list"
  x_session :: "session option"

text \<open>
  What the process and its libraries supply to one tool call:
  \<^item> \<open>firestoreSync\<close>: whether the cloud mirror was initialised (it only changes reply texts
    here; the mirror swallows its own failures);
  \<^item> \<open>date_now\<close>: the clock, milliseconds since the epoch, read once per call; SQLite's
    \<^verbatim>\<open>CURRENT_TIMESTAMP\<close> reads the same clock;
  \<^item> \<open>fraction_to_string\<close>: JavaScript's rendering of a number that is not whole;
  \<^item> \<open>UTC\<close>: the runtime's conversion of a local time value to UTC, which depends on the
    time zone of the process (the identity when that zone is UTC);
  \<^item> \<open>date_parse\<close>: the time value of \<^verbatim>\<open>new Date(text)\<close> for a text that is not of the
    shape \<^verbatim>\<open>YYYY-MM-DD HH:MM:SS\<close>, \<open>None\<close> for an invalid date;
  \<^item> \<open>toLocaleDateString\<close>, \<open>json_stringify\<close>: the library functions of those names;
  \<^item> \<open>prepare_error\<close>: the exception \<^verbatim>\<open>db.prepare\<close> raises for a statement whose table name
    is the text of a member of \<^verbatim>\<open>Object.prototype\<close>;
  \<^item> \<open>other_cases\<close>: the cases of the switch that are not embedded below.
\<close>

record env =
  firestoreSync :: bool
  date_now :: int
  fraction_to_string :: "rat \<Rightarrow> string"
  UTC :: "int \<Rightarrow> int"
  date_parse :: "string \<Rightarrow> int option"
  toLocaleDateString :: "int \<Rightarrow> string"
  json_stringify :: "export_data \<Rightarrow> string"
  prepare_error :: "string \<Rightarrow> exn"
  other_cases :: "string \<Rightarrow> args \<Rightarrow> store \<Rightarrow> (exn + string) \<times> store"

definition CURRENT_TIMESTAMP :: "env \<Rightarrow> string" where
  "CURRENT_TIMESTAMP env = sqlite_timestamp (date_now env)"

text \<open>
  A number inside a template literal: a whole number prints in decimal (JavaScript does so
  below \<open>10^21\<close> in magnitude), any other number as the runtime renders it.
\<close>

definition number_to_string :: "env \<Rightarrow> rat \<Rightarrow> string" where
  "number_to_string env r =
     (if r = of_int \<lfloor>r\<rfloor> then show_int \<lfloor>r\<rfloor> else fraction_to_string env r)"

definition synced :: "env \<Rightarrow> string" where
  "synced env = (if firestoreSync env then '' (synced)'' else [])"

text \<open>
  \<^verbatim>\<open>new Date(text)\<close>. A text \<^verbatim>\<open>YYYY-MM-DD HH:MM:SS\<close> carries no zone, and the runtime reads
  its fields as local time.
\<close>

definition new_Date :: "env \<Rightarrow> string \<Rightarrow> int option" where
  "new_Date env s =
     (case timestamp_value s of
        Some local \<Rightarrow> Some (UTC env local)
      | None \<Rightarrow> date_parse env s)"

text \<open>The helper \<^verbatim>\<open>getTimeAgo\<close>; \<^verbatim>\<open>new Date(null)\<close> is the epoch.\<close>

definition getTimeAgo :: "env \<Rightarrow> string option \<Rightarrow> string" where
  "getTimeAgo env timestamp =
     (case (case timestamp of None \<Rightarrow> Some 0 | Some s \<Rightarrow> new_Date env s) of
        None \<Rightarrow> ''Invalid Date''
      | Some then_ms \<Rightarrow>
          (let diffMs = date_now env - then_ms;
               diffMins = diffMs div 60000;
               diffHours = diffMs div 3600000;
               diffDays = diffMs div 86400000
           in if diffMins < 1 then ''just now''
              else if diffMins < 60 then show_int diffMins @ ''m ago''
              else if diffHours < 24 then show_int diffHours @ ''h ago''
              else if diffDays < 7 then show_int diffDays @ ''d ago''
              else toLocaleDateString env then_ms))"

subsection \<open>Prepared statements\<close>

definition getDecisions :: "store \<Rightarrow> string \<Rightarrow> rat \<Rightarrow> exn + decision list" where
  "getDecisions st p n =
     sql_limit n (order_by_desc (\<lambda>r. (d_priority r, d_date r))
       (filter (\<lambda>r. d_project r = p \<and> not_archived (d_archived r)) (decisions st)))"

definition getDecisionsByCategory ::
  "store \<Rightarrow> string \<Rightarrow> string \<Rightarrow> rat \<Rightarrow> exn + decision list" where
  "getDecisionsByCategory st p c n =
     sql_limit n (order_by_desc (\<lambda>r. (d_priority r, d_date r))
       (filter (\<lambda>r. d_project r = p \<and> d_category r = Some c \<and> not_archived (d_archived r))
          (decisions st)))"

definition searchDecisions :: "store \<Rightarrow> string \<Rightarrow> string \<Rightarrow> string \<Rightarrow> decision list" where
  "searchDecisions st p pat1 pat2 =
     order_by_desc (\<lambda>r. (d_priority r, d_date r))
       (filter (\<lambda>r. d_project r = p \<and> not_archived (d_archived r) \<and>
                    (sql_like (d_decision r) pat1 \<or> sql_like_opt (d_rationale r) pat2))
          (decisions st))"

definition findSolution :: "store \<Rightarrow> string \<Rightarrow> string \<Rightarrow> error_row list" where
  "findSolution st p pat =
     limit_rows 5 (order_by_desc (\<lambda>r. (e_priority r, e_created_at r))
       (filter (\<lambda>r. e_project r = p \<and> not_archived (e_archived r) \<and>
                    sql_like (e_error_pattern r) pat)
          (errors st)))"

definition findSolutionByCategory :: "store \<Rightarrow> string \<Rightarrow> string \<Rightarrow> string \<Rightarrow> error_row list" where
  "findSolutionByCategory st p c pat =
     limit_rows 5 (order_by_desc (\<lambda>r. (e_priority r, e_created_at r))
       (filter (\<lambda>r. e_project r = p \<and> e_category r = Some c \<and> not_archived (e_archived r) \<and>
                    sql_like (e_error_pattern r) pat)
          (errors st)))"

definition getRecentErrors :: "store \<Rightarrow> string \<Rightarrow> rat \<Rightarrow> exn + error_row list" where
  "getRecentErrors st p n =
     sql_limit n (order_by_desc (\<lambda>r. (e_priority r, e_created_at r))
       (filter (\<lambda>r. e_project r = p \<and> not_archived (e_archived r)) (errors st)))"

text \<open>
  \<^verbatim>\<open>INSERT INTO context ... ON CONFLICT(project, key) DO UPDATE SET value = excluded.value,
  updated_at = CURRENT_TIMESTAMP\<close>. Both columns are \<^verbatim>\<open>NOT NULL\<close>, so a row conflicts when
  it has the same project and key.
\<close>

definition upsertContext :: "env \<Rightarrow> string \<Rightarrow> string \<Rightarrow> string \<Rightarrow> store \<Rightarrow> store" where
  "upsertContext env p k v st =
     (if filter (\<lambda>r. c_project r = p \<and> c_key r = k) (context_rows st) \<noteq> []
      then st\<lparr>context_rows :=
                fst (sql_update (\<lambda>r. c_project r = p \<and> c_key r = k)
                       (\<lambda>r. r\<lparr>c_value := v, c_updated_at := Some (CURRENT_TIMESTAMP env)\<rparr>)
                       (context_rows st))\<rparr>
      else (let i = next_rowid (context_seq st) (map c_id (context_rows st))
            in st\<lparr>context_rows := context_rows st @
                      [\<lparr>c_id = i, c_project = p, c_key = k, c_value = v,
                        c_updated_at = Some (CURRENT_TIMESTAMP env), c_synced_at = None\<rparr>],
                    context_seq := i\<rparr>))"

definition getLearnings :: "store \<Rightarrow> string \<Rightarrow> rat \<Rightarrow> exn + learning list" where
  "getLearnings st p n =
     sql_limit n (order_by_desc (\<lambda>r. (l_priority r, l_created_at r))
       (filter (\<lambda>r. (l_project r = Some p \<or> l_project r = None) \<and> not_archived (l_archived r))
          (learnings st)))"

definition searchLearnings :: "store \<Rightarrow> string \<Rightarrow> string \<Rightarrow> learning list" where
  "searchLearnings st p pat =
     order_by_desc (\<lambda>r. (l_priority r, l_created_at r))
       (filter (\<lambda>r. (l_project r = Some p \<or> l_project r = None) \<and> not_archived (l_archived r) \<and>
                    sql_like (l_content r) pat)
          (learnings st))"

text \<open>
  \<^verbatim>\<open>INSERT INTO sessions ... ON CONFLICT(project, workspace) DO UPDATE SET task, status, notes,
  updated_at\<close> against \<^verbatim>\<open>UNIQUE(project, workspace)\<close>. \<open>workspace\<close> is nullable, and in a
  SQLite \<^verbatim>\<open>UNIQUE\<close> constraint a \<open>NULL\<close> is distinct from every value, another \<open>NULL\<close>
  included: an insert with a \<open>NULL\<close> workspace conflicts with no row.
\<close>

definition session_conflict :: "string \<Rightarrow> string option \<Rightarrow> session \<Rightarrow> bool" where
  "session_conflict p w r =
     (s_project r = p \<and> (case w of None \<Rightarrow> False | Some x \<Rightarrow> s_workspace r = Some x))"

definition upsertSessionWithWorkspace ::
  "env \<Rightarrow> string \<Rightarrow> string option \<Rightarrow> string \<Rightarrow> string option \<Rightarrow> string option \<Rightarrow> store \<Rightarrow> store" where
  "upsertSessionWithWorkspace env p w task status notes st =
     (if filter (session_conflict p w) (sessions st) \<noteq> []
      then st\<lparr>sessions :=
                fst (sql_update (session_conflict p w)
                       (\<lambda>r. r\<lparr>s_task := task, s_status := status, s_notes := notes,
                               s_updated_at := Some (CURRENT_TIMESTAMP env)\<rparr>)
                       (sessions st))\<rparr>
      else (let i = next_rowid (sessions_seq st) (map s_id (sessions st))
            in st\<lparr>sessions := sessions st @
                      [\<lparr>s_id = i, s_project = p, s_workspace = w, s_task = task,
                        s_status = status, s_notes = notes,
                        s_updated_at = Some (CURRENT_TIMESTAMP env), s_synced_at = None\<rparr>],
                    sessions_seq := i\<rparr>))"

text \<open>\<^verbatim>\<open>project = ? AND (workspace = ? OR (workspace IS NULL AND ? IS NULL))\<close>\<close>

definition session_matches :: "string \<Rightarrow> string option \<Rightarrow> string option \<Rightarrow> session \<Rightarrow> bool" where
  "session_matches p w1 w2 r =
     (s_project r = p \<and>
      ((case w1 of None \<Rightarrow> False | Some x \<Rightarrow> s_workspace r = Some x) \<or>
       (s_workspace r = None \<and> w2 = None)))"

definition getSessionWithWorkspace ::
  "store \<Rightarrow> string \<Rightarrow> string option \<Rightarrow> string option \<Rightarrow> session option" where
  "getSessionWithWorkspace st p w1 w2 =
     (case filter (session_matches p w1 w2) (sessions st) of [] \<Rightarrow> None | r # _ \<Rightarrow> Some r)"

definition deleteSessionWithWorkspace ::
  "string \<Rightarrow> string option \<Rightarrow> string option \<Rightarrow> store \<Rightarrow> store \<times> nat" where
  "deleteSessionWithWorkspace p w1 w2 st =
     (case sql_delete (session_matches p w1 w2) (sessions st) of
        (rows, changes) \<Rightarrow> (st\<lparr>sessions := rows\<rparr>, changes))"

definition getAllSessionsForProject :: "store \<Rightarrow> string \<Rightarrow> session list" where
  "getAllSessionsForProject st p =
     order_by_desc s_updated_at (filter (\<lambda>r. s_project r = p) (sessions st))"

text \<open>
  \<^verbatim>\<open>UPDATE t SET access_count = COALESCE(access_count, 0) + 1, last_accessed =
  CURRENT_TIMESTAMP WHERE id = ?\<close>, for each of the three tables.
\<close>

definition coalesce :: "int option \<Rightarrow> int \<Rightarrow> int" where
  "coalesce v d = (case v of None \<Rightarrow> d | Some n \<Rightarrow> n)"

definition touch_decision :: "env \<Rightarrow> decision \<Rightarrow> decision" where
  "touch_decision env r =
     r\<lparr>d_access_count := Some (coalesce (d_access_count r) 0 + 1),
       d_last_accessed := Some (CURRENT_TIMESTAMP env)\<rparr>"

definition trackDecisionAccess :: "env \<Rightarrow> int \<Rightarrow> store \<Rightarrow> store" where
  "trackDecisionAccess env i st =
     st\<lparr>decisions := fst (sql_update (\<lambda>r. d_id r = i) (touch_decision env) (decisions st))\<rparr>"

definition touch_error :: "env \<Rightarrow> error_row \<Rightarrow> error_row" where
  "touch_error env r =
     r\<lparr>e_access_count := Some (coalesce (e_access_count r) 0 + 1),
       e_last_accessed := Some (CURRENT_TIMESTAMP env)\<rparr>"

definition trackErrorAccess :: "env \<Rightarrow> int \<Rightarrow> store \<Rightarrow> store" where
  "trackErrorAccess env i st =
     st\<lparr>errors := fst (sql_update (\<lambda>r. e_id r = i) (touch_error env) (errors st))\<rparr>"

definition touch_learning :: "env \<Rightarrow> learning \<Rightarrow> learning" where
  "touch_learning env r =
     r\<lparr>l_access_count := Some (coalesce (l_access_count r) 0 + 1),
       l_last_accessed := Some (CURRENT_TIMESTAMP env)\<rparr>"

definition trackLearningAccess :: "env \<Rightarrow> int \<Rightarrow> store \<Rightarrow> store" where
  "trackLearningAccess env i st =
     st\<lparr>learnings := fst (sql_update (\<lambda>r. l_id r = i) (touch_learning env) (learnings st))\<rparr>"

text \<open>
  The file declares no \<^verbatim>\<open>getSession\<close>: its session statements are
  \<^verbatim>\<open>upsertSessionWithWorkspace\<close>, \<^verbatim>\<open>getSessionWithWorkspace\<close>,
  \<^verbatim>\<open>deleteSessionWithWorkspace\<close> and \<^verbatim>\<open>getAllSessionsForProject\<close>. Evaluating the
  identifier raises.
\<close>

definition getSession :: "exn + (store \<Rightarrow> string \<Rightarrow> session option)" where
  "getSession = Inl (ReferenceError ''getSession is not defined'')"

subsection \<open>The cases of the switch\<close>

text \<open>
  Each case returns the reply text, or the exception it raises, and the store it leaves.
  \<^verbatim>\<open>r.category ? ` [${r.category}]` : ''\<close> and its variants are written out per case.
\<close>

definition categoryTag :: "string option \<Rightarrow> string" where
  "categoryTag c = (case or_null c of None \<Rightarrow> [] | Some t \<Rightarrow> '' ['' @ t @ '']'')"

text \<open>
  The rows a recall-style read selects, the variable \<^verbatim>\<open>results\<close> of its case; \<^verbatim>\<open>.all\<close>
  raises when the statement does.
\<close>

definition recall_decisions_results :: "args \<Rightarrow> store \<Rightarrow> exn + decision list" where
  "recall_decisions_results a st =
     (case or_null (arg_category a) of
        Some c \<Rightarrow> getDecisionsByCategory st (arg_project a) c (or_num (arg_limit a) 10)
      | None \<Rightarrow>
          (case or_null (arg_search a) of
             Some q \<Rightarrow>
               (let pattern = ''%'' @ q @ ''%''
                in Inr (searchDecisions st (arg_project a) pattern pattern))
           | None \<Rightarrow> getDecisions st (arg_project a) (or_num (arg_limit a) 10)))"

definition find_solution_results :: "args \<Rightarrow> store \<Rightarrow> exn + error_row list" where
  "find_solution_results a st =
     (let pattern = ''%'' @ arg_error a @ ''%''
      in case or_null (arg_category a) of
           Some c \<Rightarrow> Inr (findSolutionByCategory st (arg_project a) c pattern)
         | None \<Rightarrow> Inr (findSolution st (arg_project a) pattern))"

definition recall_learnings_results :: "args \<Rightarrow> store \<Rightarrow> exn + learning list" where
  "recall_learnings_results a st =
     (case or_null (arg_search a) of
        Some q \<Rightarrow> Inr (searchLearnings st (arg_project a) (''%'' @ q @ ''%''))
      | None \<Rightarrow> getLearnings st (arg_project a) (or_num (arg_limit a) 20))"

text \<open>The rows a query returned: none when it raised.\<close>

definition rows_of :: "exn + 'r list \<Rightarrow> 'r list" where
  "rows_of res = (case res of Inl e \<Rightarrow> [] | Inr rows \<Rightarrow> rows)"

text \<open>The reply text of \<^verbatim>\<open>recall_decisions\<close> for the rows it selected.\<close>

definition recall_decisions_text :: "decision list \<Rightarrow> string" where
  "recall_decisions_text results =
     (if results \<noteq> []
      then join (newline @ newline)
             (map (\<lambda>r. ''['' @ d_date r @ '']'' @ categoryTag (d_category r) @ '' '' @
                        d_decision r @ newline @ ''  Rationale: '' @
                        or_str (d_rationale r) ''N/A'')
                results)
      else ''No decisions found for this project'')"

definition recall_decisions :: "env \<Rightarrow> args \<Rightarrow> store \<Rightarrow> (exn + string) \<times> store" where
  "recall_decisions env a st =
     (case recall_decisions_results a st of
        Inl e \<Rightarrow> (Inl e, st)
      | Inr results \<Rightarrow>
          (let st' = fold (\<lambda>r. trackDecisionAccess env (d_id r)) results st
           in (Inr (recall_decisions_text results), st')))"

definition list_decisions :: "env \<Rightarrow> args \<Rightarrow> store \<Rightarrow> (exn + string) \<times> store" where
  "list_decisions env a st =
     (case getDecisions st (arg_project a) (or_num (arg_limit a) 10) of
        Inl e \<Rightarrow> (Inl e, st)
      | Inr results \<Rightarrow>
          (Inr (if results \<noteq> []
                then join (newline @ newline)
                       (map (\<lambda>r. ''[ID:'' @ show_int (d_id r) @ ''] ['' @ d_date r @ '']'' @
                                  categoryTag (d_category r) @ '' '' @ d_decision r @ newline @
                                  ''  Rationale: '' @ or_str (d_rationale r) ''N/A'')
                          results)
                else ''No decisions found for this project''),
           st))"

definition find_solution :: "env \<Rightarrow> args \<Rightarrow> store \<Rightarrow> (exn + string) \<times> store" where
  "find_solution env a st =
     (case find_solution_results a st of
        Inl e \<Rightarrow> (Inl e, st)
      | Inr results \<Rightarrow>
          (let st' = fold (\<lambda>r. trackErrorAccess env (e_id r)) results st
           in (Inr (if results \<noteq> []
                    then join (newline @ newline @ ''---'' @ newline @ newline)
                           (map (\<lambda>r. ''Error:'' @ categoryTag (e_category r) @ '' '' @
                                      e_error_pattern r @ newline @ ''Solution: '' @
                                      e_solution r @ newline @ ''Context: '' @
                                      or_str (e_context r) ''N/A'')
                              results)
                    else ''No matching solutions found''),
               st')))"

definition set_context :: "env \<Rightarrow> args \<Rightarrow> store \<Rightarrow> (exn + string) \<times> store" where
  "set_context env a st =
     (let st' = upsertContext env (arg_project a) (arg_key a) (arg_value a) st
      in (Inr (''Context '' @ arg_key a @ '' set for '' @ arg_project a @ synced env), st'))"

definition recall_learnings :: "env \<Rightarrow> args \<Rightarrow> store \<Rightarrow> (exn + string) \<times> store" where
  "recall_learnings env a st =
     (case recall_learnings_results a st of
        Inl e \<Rightarrow> (Inl e, st)
      | Inr results \<Rightarrow>
          (let st' = fold (\<lambda>r. trackLearningAccess env (l_id r)) results st
           in (Inr (if results \<noteq> []
                    then join (newline @ newline)
                           (map (\<lambda>r. ''['' @ l_category r @ ''] '' @ l_content r @
                                      (case or_null (l_project r) of
                                         Some p \<Rightarrow> '' ('' @ p @ '')''
                                       | None \<Rightarrow> '' (global)''))
                              results)
                    else ''No learnings found''),
               st')))"

definition list_errors :: "env \<Rightarrow> args \<Rightarrow> store \<Rightarrow> (exn + string) \<times> store" where
  "list_errors env a st =
     (case getRecentErrors st (arg_project a) (or_num (arg_limit a) 10) of
        Inl e \<Rightarrow> (Inl e, st)
      | Inr results \<Rightarrow>
          (Inr (if results \<noteq> []
                then join (newline @ newline)
                       (map (\<lambda>r. ''[ID:'' @ show_int (e_id r) @ '']'' @
                                  categoryTag (e_category r) @ '' '' @ e_error_pattern r @
                                  newline @ ''  Solution: '' @ e_solution r @ newline @
                                  ''  Context: '' @ or_str (e_context r) ''N/A'')
                          results)
                else ''No errors stored for this project''),
           st))"

definition save_session :: "env \<Rightarrow> args \<Rightarrow> store \<Rightarrow> (exn + string) \<times> store" where
  "save_session env a st =
     (let workspace = or_null (arg_workspace a);
          st' = upsertSessionWithWorkspace env (arg_project a) workspace (arg_task a)
                  (Some (or_str (arg_status a) ''in-progress'')) (or_null (arg_notes a)) st;
          workspaceInfo = (case workspace of None \<Rightarrow> [] | Some w \<Rightarrow> '' (workspace: '' @ w @ '')'')
      in (Inr (''Session saved for '' @ arg_project a @ workspaceInfo @ '': '' @ arg_task a @
               synced env),
          st'))"

definition get_session :: "env \<Rightarrow> args \<Rightarrow> store \<Rightarrow> (exn + string) \<times> store" where
  "get_session env a st =
     (case arg_workspace a of
        Some workspace \<Rightarrow>
          (case getSessionWithWorkspace st (arg_project a) (Some workspace) (Some workspace) of
             Some session \<Rightarrow>
               (Inr (''Last session'' @
                     (case or_null (s_workspace session) of
                        None \<Rightarrow> [] | Some w \<Rightarrow> '' ['' @ w @ '']'') @
                     '' ('' @ getTimeAgo env (s_updated_at session) @ ''):'' @ newline @
                     ''Task: '' @ s_task session @ newline @
                     ''Status: '' @ or_str (s_status session) ''in-progress'' @ newline @
                     ''Notes: '' @ or_str (s_notes session) ''None''),
                st)
           | None \<Rightarrow> (Inr ''No saved session found'', st))
      | None \<Rightarrow>
          (let sessions = getAllSessionsForProject st (arg_project a)
           in if sessions \<noteq> []
              then (Inr (join (newline @ newline)
                      (map (\<lambda>session.
                              (case or_null (s_workspace session) of
                                 None \<Rightarrow> ''[default] '' | Some w \<Rightarrow> ''['' @ w @ ''] '') @
                              ''('' @ getTimeAgo env (s_updated_at session) @ ''):'' @ newline @
                              ''  Task: '' @ s_task session @ newline @
                              ''  Status: '' @ or_str (s_status session) ''in-progress'' @
                              newline @ ''  Notes: '' @ or_str (s_notes session) ''None'')
                         sessions)),
                    st)
              else (Inr ''No saved session found'', st)))"

definition clear_session :: "env \<Rightarrow> args \<Rightarrow> store \<Rightarrow> (exn + string) \<times> store" where
  "clear_session env a st =
     (case arg_workspace a of
        Some workspace \<Rightarrow>
          (case deleteSessionWithWorkspace (arg_project a) (Some workspace) (Some workspace) st of
             (st', changes) \<Rightarrow>
               (Inr (if changes > 0
                     then ''Session cleared for '' @ arg_project a @
                          (if workspace \<noteq> [] then '' (workspace: '' @ workspace @ '')'' else [])
                     else ''No session to clear''),
                st'))
      | None \<Rightarrow>
          (case sql_delete (\<lambda>r. s_project r = arg_project a) (sessions st) of
             (rows, changes) \<Rightarrow>
               (Inr (if changes > 0
                     then ''All sessions cleared for '' @ arg_project a @ '' ('' @
                          show_nat changes @ '' session(s))''
                     else ''No sessions to clear''),
                st\<lparr>sessions := rows\<rparr>)))"

text \<open>
  \<^verbatim>\<open>tableMap[args.type]\<close>: the object literal has three own keys. A lookup of any other key
  falls through to \<^verbatim>\<open>Object.prototype\<close>, whose members are truthy, so the \<^verbatim>\<open>!table\<close>
  guard lets them pass and \<^verbatim>\<open>db.prepare\<close> is handed a statement it rejects.
\<close>

definition tableMap :: "string \<Rightarrow> string option" where
  "tableMap t =
     (if t = ''decision'' then Some ''decisions''
      else if t = ''error'' then Some ''errors''
      else if t = ''learning'' then Some ''learnings''
      else None)"

definition object_prototype_member :: "string \<Rightarrow> bool" where
  "object_prototype_member t =
     List.member [''constructor'', ''hasOwnProperty'', ''isPrototypeOf'', ''propertyIsEnumerable'',
       ''toLocaleString'', ''toString'', ''valueOf'', ''__proto__'', ''__defineGetter__'',
       ''__defineSetter__'', ''__lookupGetter__'', ''__lookupSetter__''] t"

text \<open>\<^verbatim>\<open>UPDATE ${table} SET archived = 1 WHERE id = ?\<close>\<close>

definition update_archived :: "string \<Rightarrow> int \<Rightarrow> store \<Rightarrow> store \<times> nat" where
  "update_archived table i st =
     (if table = ''decisions''
      then (case sql_update (\<lambda>r. d_id r = i) (\<lambda>r. r\<lparr>d_archived := Some 1\<rparr>) (decisions st) of
              (rows, changes) \<Rightarrow> (st\<lparr>decisions := rows\<rparr>, changes))
      else if table = ''errors''
      then (case sql_update (\<lambda>r. e_id r = i) (\<lambda>r. r\<lparr>e_archived := Some 1\<rparr>) (errors st) of
              (rows, changes) \<Rightarrow> (st\<lparr>errors := rows\<rparr>, changes))
      else (case sql_update (\<lambda>r. l_id r = i) (\<lambda>r. r\<lparr>l_archived := Some 1\<rparr>) (learnings st) of
              (rows, changes) \<Rightarrow> (st\<lparr>learnings := rows\<rparr>, changes)))"

definition archive :: "env \<Rightarrow> args \<Rightarrow> store \<Rightarrow> (exn + string) \<times> store" where
  "archive env a st =
     (case tableMap (arg_type a) of
        None \<Rightarrow>
          (if object_prototype_member (arg_type a)
           then (Inl (prepare_error env (arg_type a)), st)
           else (Inr (''Invalid type: '' @ arg_type a @
                      ''. Use 'decision', 'error', or 'learning'' @ quote), st))
      | Some table \<Rightarrow>
          (case update_archived table (arg_id a) st of
             (st', changes) \<Rightarrow>
               (Inr (if changes > 0
                     then ''Archived '' @ arg_type a @ '' #'' @ show_int (arg_id a)
                     else ''No '' @ arg_type a @ '' found with ID '' @ show_int (arg_id a)),
                st')))"

text \<open>\<^verbatim>\<open>UPDATE ${table} SET priority = ? WHERE id = ?\<close>\<close>

definition update_priority :: "string \<Rightarrow> rat \<Rightarrow> int \<Rightarrow> store \<Rightarrow> store \<times> nat" where
  "update_priority table p i st =
     (if table = ''decisions''
      then (case sql_update (\<lambda>r. d_id r = i) (\<lambda>r. r\<lparr>d_priority := Some p\<rparr>) (decisions st) of
              (rows, changes) \<Rightarrow> (st\<lparr>decisions := rows\<rparr>, changes))
      else if table = ''errors''
      then (case sql_update (\<lambda>r. e_id r = i) (\<lambda>r. r\<lparr>e_priority := Some p\<rparr>) (errors st) of
              (rows, changes) \<Rightarrow> (st\<lparr>errors := rows\<rparr>, changes))
      else (case sql_update (\<lambda>r. l_id r = i) (\<lambda>r. r\<lparr>l_priority := Some p\<rparr>) (learnings st) of
              (rows, changes) \<Rightarrow> (st\<lparr>learnings := rows\<rparr>, changes)))"

text \<open>\<^verbatim>\<open>priorityLabels[priority]\<close> on the array \<^verbatim>\<open>['normal', 'high', 'critical']\<close>.\<close>

definition priorityLabels :: "rat \<Rightarrow> string" where
  "priorityLabels p =
     (if p = 0 then ''normal'' else if p = 1 then ''high'' else if p = 2 then ''critical''
      else ''undefined'')"

definition invalid_priority_text :: "env \<Rightarrow> rat \<Rightarrow> string" where
  "invalid_priority_text env p =
     ''Invalid priority: '' @ number_to_string env p @
     ''. Use 0 (normal), 1 (high), or 2 (critical)''"

definition set_priority :: "env \<Rightarrow> args \<Rightarrow> store \<Rightarrow> (exn + string) \<times> store" where
  "set_priority env a st =
     (case tableMap (arg_type a) of
        None \<Rightarrow>
          (if object_prototype_member (arg_type a)
           then (if arg_priority a < 0 \<or> arg_priority a > 2
                 then (Inr (invalid_priority_text env (arg_priority a)), st)
                 else (Inl (prepare_error env (arg_type a)), st))
           else (Inr (''Invalid type: '' @ arg_type a @
                      ''. Use 'decision', 'error', or 'learning'' @ quote), st))
      | Some table \<Rightarrow>
          (let priority = arg_priority a
           in if priority < 0 \<or> priority > 2
              then (Inr (invalid_priority_text env priority), st)
              else (case update_priority table priority (arg_id a) st of
                      (st', changes) \<Rightarrow>
                        (Inr (if changes > 0
                              then ''Set '' @ arg_type a @ '' #'' @ show_int (arg_id a) @
                                   '' priority to '' @ priorityLabels priority @ '' ('' @
                                   number_to_string env priority @ '')''
                              else ''No '' @ arg_type a @ '' found with ID '' @
                                   show_int (arg_id a)),
                         st'))))"

text \<open>
  \<^verbatim>\<open>DELETE FROM ${table} WHERE archived = 1 AND created_at < ?\<close>, with
  \<^verbatim>\<open> AND project = ?\<close> appended unless the project is \<^verbatim>\<open>'all'\<close>, over the three tables in
  turn. The bound value is the ISO text of the cutoff.
\<close>

definition prune :: "env \<Rightarrow> args \<Rightarrow> store \<Rightarrow> (exn + string) \<times> store" where
  "prune env a st =
     (let days = or_num (arg_days a) 90
      in case toISOString (date_now env - days * 24 * 60 * 60 * 1000) of
           Inl e \<Rightarrow> (Inl e, st)
         | Inr cutoffDate \<Rightarrow>
             (let every = (arg_project a = ''all'');
                  ds = sql_delete (\<lambda>r. d_archived r = Some 1 \<and>
                                       text_before (d_created_at r) cutoffDate \<and>
                                       (every \<or> d_project r = arg_project a)) (decisions st);
                  es = sql_delete (\<lambda>r. e_archived r = Some 1 \<and>
                                       text_before (e_created_at r) cutoffDate \<and>
                                       (every \<or> e_project r = arg_project a)) (errors st);
                  ls = sql_delete (\<lambda>r. l_archived r = Some 1 \<and>
                                       text_before (l_created_at r) cutoffDate \<and>
                                       (every \<or> l_project r = Some (arg_project a))) (learnings st);
                  totalDeleted = snd ds + snd es + snd ls
              in (Inr (''Pruned '' @ show_nat totalDeleted @ '' archived items older than '' @
                       show_int days @ '' days''),
                  st\<lparr>decisions := fst ds, errors := fst es, learnings := fst ls\<rparr>)))"

text \<open>
  The fields of the object literal are evaluated in order; \<^verbatim>\<open>session: getSession.get(...)\<close>
  comes last, after the four queries and before \<^verbatim>\<open>JSON.stringify\<close>.
\<close>

definition export_memory :: "env \<Rightarrow> args \<Rightarrow> store \<Rightarrow> (exn + string) \<times> store" where
  "export_memory env a st =
     (let includeArchived = (case arg_include_archived a of None \<Rightarrow> False | Some b \<Rightarrow> b)
      in case toISOString (date_now env) of
           Inl e \<Rightarrow> (Inl e, st)
         | Inr exported_at \<Rightarrow>
             (let ds = filter (\<lambda>r. d_project r = arg_project a \<and>
                                   (includeArchived \<or> not_archived (d_archived r))) (decisions st);
                  es = filter (\<lambda>r. e_project r = arg_project a \<and>
                                   (includeArchived \<or> not_archived (e_archived r))) (errors st);
                  cs = filter (\<lambda>r. c_project r = arg_project a) (context_rows st);
                  ls = filter (\<lambda>r. l_project r = Some (arg_project a) \<and>
                                   (includeArchived \<or> not_archived (l_archived r))) (learnings st)
              in case getSession of
                   Inl e \<Rightarrow> (Inl e, st)
                 | Inr get \<Rightarrow>
                     (Inr (json_stringify env
                             \<lparr>x_project = arg_project a, x_exported_at = exported_at,
                              x_decisions = ds, x_errors = es, x_context = cs, x_learnings = ls,
                              x_session = get st (arg_project a)\<rparr>),
                      st)))"

text \<open>
  The closure \<^verbatim>\<open>getTier\<close> of \<^verbatim>\<open>load_comprehensive_memory\<close>. It reads two columns of
  the row it is given, so the argument is those two.
\<close>

record item =
  access_count :: "int option"
  last_accessed :: "string option"

definition daysSinceAccess :: "env \<Rightarrow> item \<Rightarrow> number" where
  "daysSinceAccess env it =
     (case or_null (last_accessed it) of
        None \<Rightarrow> Infinity
      | Some s \<Rightarrow>
          (case new_Date env s of
             None \<Rightarrow> NaN
           | Some lastAccessed \<Rightarrow>
               Num (of_int (date_now env - lastAccessed) / (1000 * 60 * 60 * 24))))"

definition getTier :: "env \<Rightarrow> item \<Rightarrow> string" where
  "getTier env it =
     (let accessCount = or_num (access_count it) 0
      in if accessCount \<ge> 5 \<or> num_le (daysSinceAccess env it) 7 then ''hot''
         else if accessCount \<ge> 2 \<or> num_le (daysSinceAccess env it) 30 then ''warm''
         else ''cold'')"

subsection \<open>The request handler\<close>

definition other_tools :: "string list" where
  "other_tools = [''remember_decision'', ''remember_error'', ''get_context'',
     ''remember_learning'', ''delete_context'', ''search_all'', ''memory_status'',
     ''load_comprehensive_memory'', ''import_memory'', ''memory_stats'', ''bulk_cleanup'',
     ''sync_to_cloud'', ''pull_from_cloud'']"

definition embedded_tools :: "string list" where
  "embedded_tools = [''recall_decisions'', ''list_decisions'', ''find_solution'', ''set_context'',
     ''recall_learnings'', ''list_errors'', ''save_session'', ''get_session'', ''clear_session'',
     ''archive'', ''set_priority'', ''prune'', ''export_memory'']"

text \<open>The body of the \<^verbatim>\<open>try\<close>: the switch on the tool name, with its \<^verbatim>\<open>default\<close>.\<close>

definition switch_name :: "env \<Rightarrow> string \<Rightarrow> args \<Rightarrow> store \<Rightarrow> (exn + string) \<times> store" where
  "switch_name env name a st =
     (if name = ''recall_decisions'' then recall_decisions env a st
      else if name = ''list_decisions'' then list_decisions env a st
      else if name = ''find_solution'' then find_solution env a st
      else if name = ''set_context'' then set_context env a st
      else if name = ''recall_learnings'' then recall_learnings env a st
      else if name = ''list_errors'' then list_errors env a st
      else if name = ''save_session'' then save_session env a st
      else if name = ''get_session'' then get_session env a st
      else if name = ''clear_session'' then clear_session env a st
      else if name = ''archive'' then archive env a st
      else if name = ''set_priority'' then set_priority env a st
      else if name = ''prune'' then prune env a st
      else if name = ''export_memory'' then export_memory env a st
      else if List.member other_tools name then other_cases env name a st
      else (Inr (''Unknown tool: '' @ name), st))"

text \<open>The handler: the \<^verbatim>\<open>catch\<close> turns an exception of the body into a reply text.\<close>

definition CallToolRequest :: "env \<Rightarrow> string \<Rightarrow> args \<Rightarrow> store \<Rightarrow> string \<times> store" where
  "CallToolRequest env name a st =
     (case switch_name env name a st of
        (Inl error, st') \<Rightarrow> (''Error: '' @ message error, st')
      | (Inr text, st') \<Rightarrow> (text, st'))"

subsection \<open>Example runtime, arguments and rows\<close>

text \<open>
  A runtime without cloud mirror, in the UTC time zone, whose clock reads
  2024-01-02T06:00:00Z, a call that names the project \<^verbatim>\<open>app\<close> and nothing else, and some
  rows.
\<close>

definition env0 :: env where
  "env0 = \<lparr>firestoreSync = False, date_now = 1704175200000,
     fraction_to_string = (\<lambda>r. ''1.5''), UTC = (\<lambda>t. t), date_parse = (\<lambda>s. None),
     toLocaleDateString = (\<lambda>t. ''1/1/2024''), json_stringify = (\<lambda>d. ''{}''),
     prepare_error = (\<lambda>t. SqliteError ''syntax error''),
     other_cases = (\<lambda>name a st. (Inr ''ok'', st))\<rparr>"

definition args0 :: args where
  "args0 = \<lparr>arg_project = ''app'', arg_search = None, arg_category = None, arg_limit = None,
     arg_error = [], arg_key = [], arg_value = [], arg_workspace = None, arg_task = [],
     arg_status = None, arg_notes = None, arg_type = [], arg_id = 0, arg_priority = 0,
     arg_days = None, arg_include_archived = None\<rparr>"

text \<open>A live decision, as \<^verbatim>\<open>remember_decision\<close> leaves it.\<close>

definition use_sqlite :: decision where
  "use_sqlite = \<lparr>d_id = 1, d_project = ''app'', d_date = ''2024-01-01'',
     d_decision = ''Use SQLite'', d_rationale = Some ''simplicity'',
     d_created_at = Some (sqlite_timestamp 1704110400000), d_synced_at = None,
     d_archived = Some 0, d_priority = Some 0, d_category = None, d_access_count = Some 0,
     d_last_accessed = None\<rparr>"

text \<open>The same decision archived; it was created at 2024-01-01 12:00:00 UTC.\<close>

definition recent_archived :: decision where
  "recent_archived = use_sqlite\<lparr>d_archived := Some 1\<rparr>"

text \<open>
  The same runtime in a zone one hour ahead of UTC, and a row with no recorded accesses that
  was last accessed at 2023-12-26 06:30:00 UTC, 6 days 23 hours 30 minutes before the clock.
\<close>

definition env_utc_plus_1 :: env where
  "env_utc_plus_1 = env0\<lparr>UTC := (\<lambda>t. t - 3600000)\<rparr>"

definition accessed_last_week :: item where
  "accessed_last_week =
     \<lparr>access_count = Some 0, last_accessed = Some (sqlite_timestamp 1703572200000)\<rparr>"

text \<open>Three saved sessions: two workspaces of \<^verbatim>\<open>app\<close> (one the default) and one of \<^verbatim>\<open>web\<close>.\<close>

definition session_of :: "int \<Rightarrow> string \<Rightarrow> string option \<Rightarrow> string \<Rightarrow> session" where
  "session_of i p w t = \<lparr>s_id = i, s_project = p, s_workspace = w, s_task = t,
     s_status = Some ''in-progress'', s_notes = None,
     s_updated_at = Some ''2024-01-01 12:00:00'', s_synced_at = None\<rparr>"

definition three_sessions :: store where
  "three_sessions = empty_store\<lparr>sessions :=
     [session_of 1 ''app'' None ''T0'', session_of 2 ''app'' (Some ''w1'') ''T1'',
      session_of 3 ''web'' None ''T2''], sessions_seq := 3\<rparr>"

text \<open>Decision 1 of \<^verbatim>\<open>app\<close> next to a decision of another project.\<close>

definition two_projects :: store where
  "two_projects = empty_store\<lparr>decisions :=
     [use_sqlite, use_sqlite\<lparr>d_id := 2, d_project := ''web''\<rparr>]\<rparr>"




text \<open>The arguments of \<^verbatim>\<open>set_context(project="app", key="sdk_version", value=v)\<close>.\<close>

definition sdk_version :: "string \<Rightarrow> args" where
  "sdk_version v = args0\<lparr>arg_key := ''sdk_version'', arg_value := v\<rparr>"

subsection \<open>Notions the statements use\<close>

text \<open>The natural key of a context row, which \<^verbatim>\<open>UNIQUE(project, key)\<close> keeps distinct.\<close>

definition context_key :: "context_row \<Rightarrow> string \<times> string" where
  "context_key r = (c_project r, c_key r)"



text \<open>
  ``\<open>last_accessed\<close> is within \<open>n\<close> days of now'': the column is set, and at most \<open>n\<close>
  days of milliseconds lie between the time its text denotes and the clock. The text is a
  \<^verbatim>\<open>CURRENT_TIMESTAMP\<close>, which SQLite writes in UTC, so the time it denotes is the value
  of its fields as they stand. A \<open>NULL\<close> (or empty) \<open>last_accessed\<close> is never within any
  number of days.
\<close>

definition accessed_within :: "env \<Rightarrow> item \<Rightarrow> int \<Rightarrow> bool" where
  "accessed_within env it n =
     (case last_accessed it of
        None \<Rightarrow> False
      | Some s \<Rightarrow>
          (case timestamp_value s of
             None \<Rightarrow> False
           | Some t \<Rightarrow> date_now env - t \<le> n * 86400000))"

text \<open>
  The same with the time of the text taken as the runtime reads it: \<^verbatim>\<open>new Date\<close> of the
  text, the empty text counting as no access.
\<close>

definition read_within :: "env \<Rightarrow> item \<Rightarrow> int \<Rightarrow> bool" where
  "read_within env it n =
     (case last_accessed it of
        None \<Rightarrow> False
      | Some s \<Rightarrow>
          s \<noteq> [] \<and>
          (case new_Date env s of
             None \<Rightarrow> False
           | Some t \<Rightarrow> date_now env - t \<le> n * 86400000))"

text \<open>The access count of a row, a \<open>NULL\<close> counting as 0.\<close>

definition count_of :: "item \<Rightarrow> int" where
  "count_of it = (case access_count it of None \<Rightarrow> 0 | Some n \<Rightarrow> n)"

section \<open>Properties\<close>

subsection \<open>Export\<close>

text \<open>
  C1 (evaluation of the code where the claim fails). The claim says that
  \<^verbatim>\<open>export_memory(P)\<close> returns a JSON document, not an error text. In this version the case
  reads the undeclared \<^verbatim>\<open>getSession\<close>; the reference raises after the four queries have
  run, the handler's \<^verbatim>\<open>catch\<close> takes it, and the reply is the error text, for every project,
  every store and every setting of \<^verbatim>\<open>include_archived\<close>. The store is left as it was.
\<close>

theorem export_memory_raises:
  "CallToolRequest (env\<lparr>date_now := 1704175200000\<rparr>) ''export_memory'' a st
     = (''Error: getSession is not defined'', st)"
  by (simp add: CallToolRequest_def switch_name_def export_memory_def getSession_def
      toISOString_def Let_def)

subsection \<open>The outer boundary\<close>

text \<open>
  C9. Whatever the switch does with a tool name and its arguments, the handler returns a
  text: when the body raises \<open>e\<close> the reply is \<^verbatim>\<open>Error: \<close> followed by the message of \<open>e\<close>,
  when the body returns a text the reply is that text, and a name that is none of the
  twenty-six tool names gets \<^verbatim>\<open>Unknown tool: \<close> followed by the name, with the store
  untouched.
\<close>

theorem handler_catches_every_exception:
  "(switch_name env name a st = (Inl e, st') \<longrightarrow>
      CallToolRequest env name a st = (''Error: '' @ message e, st'))
   \<and> (switch_name env name a st = (Inr t, st') \<longrightarrow>
      CallToolRequest env name a st = (t, st'))
   \<and> (\<not> List.member (embedded_tools @ other_tools) name \<longrightarrow>
      CallToolRequest env name a st = (''Unknown tool: '' @ name, st))"
proof (intro conjI impI)
  assume "switch_name env name a st = (Inl e, st')"
  then show "CallToolRequest env name a st = (''Error: '' @ message e, st')"
    by (simp add: CallToolRequest_def)
next
  assume "switch_name env name a st = (Inr t, st')"
  then show "CallToolRequest env name a st = (t, st')"
    by (simp add: CallToolRequest_def)
next
  assume "\<not> List.member (embedded_tools @ other_tools) name"
  then have "switch_name env name a st = (Inr (''Unknown tool: '' @ name), st)"
    by (simp add: switch_name_def embedded_tools_def other_tools_def)
  then show "CallToolRequest env name a st = (''Unknown tool: '' @ name, st)"
    by (simp add: CallToolRequest_def)
qed

theorem handler_catches_every_exception_witness:
  "switch_name env0 ''export_memory'' args0 empty_store
     = (Inl (ReferenceError ''getSession is not defined''), empty_store)
   \<and> CallToolRequest env0 ''export_memory'' args0 empty_store
     = (''Error: getSession is not defined'', empty_store)
   \<and> switch_name env0 ''list_decisions'' args0 empty_store
     = (Inr ''No decisions found for this project'', empty_store)
   \<and> CallToolRequest env0 ''list_decisions'' args0 empty_store
     = (''No decisions found for this project'', empty_store)
   \<and> CallToolRequest env0 ''forget_everything'' args0 empty_store
     = (''Unknown tool: forget_everything'', empty_store)"
proof -
  have raised: "switch_name env0 ''export_memory'' args0 empty_store
      = (Inl (ReferenceError ''getSession is not defined''), empty_store)"
    by (simp add: switch_name_def export_memory_def getSession_def toISOString_def Let_def
        env0_def)
  have returned: "switch_name env0 ''list_decisions'' args0 empty_store
      = (Inr ''No decisions found for this project'', empty_store)"
    by (simp add: switch_name_def list_decisions_def getDecisions_def sql_limit_def
        fits_int64_def limit_rows_def or_num_def args0_def order_by_desc_def empty_store_def)
  have unknown: "\<not> List.member (embedded_tools @ other_tools) ''forget_everything''"
    by (simp add: embedded_tools_def other_tools_def)
  from raised returned unknown
    handler_catches_every_exception [of env0 "''export_memory''" args0 empty_store
      "ReferenceError ''getSession is not defined''" empty_store "[]"]
    handler_catches_every_exception [of env0 "''list_decisions''" args0 empty_store
      "ReferenceError []" empty_store "''No decisions found for this project''"]
    handler_catches_every_exception [of env0 "''forget_everything''" args0 empty_store
      "ReferenceError []" empty_store "[]"]
  show ?thesis by simp
qed

subsection \<open>Pruning\<close>

text \<open>
  C8 (evaluation of the code where the claim fails). The claim says that \<^verbatim>\<open>prune(P, d)\<close>
  deletes exactly the archived rows whose \<open>created_at\<close> is older than now minus \<open>d\<close> days.
  The archived decision below was created at 2024-01-01 12:00:00 UTC; the clock reads
  2024-01-02 06:00:00 UTC, so the row is 18 hours old. \<^verbatim>\<open>prune("app", 1)\<close> deletes it and
  reports one pruned item: the stored text \<^verbatim>\<open>2024-01-01 12:00:00\<close> is compared bytewise with
  the cutoff text \<^verbatim>\<open>2024-01-01T06:00:00.000Z\<close>, and a space sorts before \<^verbatim>\<open>T\<close>.
\<close>

theorem prune_deletes_row_younger_than_cutoff:
  "d_created_at recent_archived = Some (sqlite_timestamp 1704110400000)
   \<and> sqlite_timestamp 1704110400000 = ''2024-01-01 12:00:00''
   \<and> toISOString (1704175200000 - 1 * 24 * 60 * 60 * 1000) = Inr ''2024-01-01T06:00:00.000Z''
   \<and> (1704175200000 - 1704110400000 :: int) < 1 * 24 * 60 * 60 * 1000
   \<and> CallToolRequest (env\<lparr>date_now := 1704175200000\<rparr>) ''prune'' (args0\<lparr>arg_days := Some 1\<rparr>)
        (empty_store\<lparr>decisions := [recent_archived]\<rparr>)
      = (''Pruned 1 archived items older than 1 days'', empty_store)"
proof -
  have "CallToolRequest (env\<lparr>date_now := 1704175200000\<rparr>) ''prune'' (args0\<lparr>arg_days := Some 1\<rparr>)
        (empty_store\<lparr>decisions := [recent_archived]\<rparr>)
      = (''Pruned 1 archived items older than 1 days'', empty_store)"
    by (simp add: CallToolRequest_def switch_name_def prune_def args0_def or_num_def Let_def
        empty_store_def recent_archived_def use_sqlite_def sql_delete_def text_before_def)
      code_simp
  moreover have "sqlite_timestamp 1704110400000 = ''2024-01-01 12:00:00''"
    by code_simp
  moreover have "toISOString (1704175200000 - 1 * 24 * 60 * 60 * 1000)
      = Inr ''2024-01-01T06:00:00.000Z''"
    by code_simp
  ultimately show ?thesis
    by (simp add: recent_archived_def use_sqlite_def)
qed

subsection \<open>Access tiers\<close>

lemma num_le_days: "num_le (daysSinceAccess env it) (of_int n) = read_within env it n"
  by (auto simp: daysSinceAccess_def read_within_def or_null_def truthy_def
      divide_le_eq split: option.splits)

lemma count_or: "or_num (access_count it) 0 = count_of it"
  by (simp add: or_num_def count_of_def split: option.splits)

text \<open>The cascade of \<^verbatim>\<open>getTier\<close>, on the time the runtime reads from the text.\<close>

lemma getTier_cascade:
  "getTier env it =
     (if count_of it \<ge> 5 \<or> read_within env it 7 then ''hot''
      else if count_of it \<ge> 2 \<or> read_within env it 30 then ''warm'' else ''cold'')"
  using num_le_days [of env it 7] num_le_days [of env it 30]
  by (simp add: getTier_def count_or Let_def)

text \<open>
  In a process whose zone is UTC the runtime reads a stored timestamp as the time it
  denotes, and the tiers are the ones the thresholds name.
\<close>

lemma getTier_in_utc:
  assumes "UTC env = (\<lambda>t. t)"
    and "last_accessed it = None \<or> last_accessed it = Some (sqlite_timestamp t0)"
    and "timestamp_value (sqlite_timestamp t0) = Some t1"
  shows "getTier env it =
     (if count_of it \<ge> 5 \<or> accessed_within env it 7 then ''hot''
      else if count_of it \<ge> 2 \<or> accessed_within env it 30 then ''warm'' else ''cold'')"
proof -
  have "read_within env it n = accessed_within env it n" for n
    using assms
    by (auto simp: read_within_def accessed_within_def new_Date_def timestamp_value_def
        split: option.splits)
  then show ?thesis
    by (simp add: getTier_cascade)
qed

text \<open>
  C4 (evaluation of the code where the claim fails). The claim says that a row is
  \<^verbatim>\<open>hot\<close> exactly when its access count is at least 5 or its \<open>last_accessed\<close> is within
  7 days of now. The row below has count 0 and was last accessed at 2023-12-26 06:30:00 UTC,
  6 days 23 hours 30 minutes before the clock, so it is within 7 days. \<^verbatim>\<open>getTier\<close> hands the
  stored text to \<^verbatim>\<open>new Date\<close>, which reads it as local time: in a process one hour ahead of
  UTC the access seems 7 days and 30 minutes old and the tier is \<^verbatim>\<open>warm\<close>. The same row
  in a process in UTC is \<^verbatim>\<open>hot\<close>.
\<close>

theorem getTier_reads_utc_text_as_local:
  "accessed_last_week = \<lparr>access_count = Some 0, last_accessed = Some ''2023-12-26 06:30:00''\<rparr>
   \<and> timestamp_value ''2023-12-26 06:30:00'' = Some 1703572200000
   \<and> date_now env_utc_plus_1 - 1703572200000 = 6 * 86400000 + 23 * 3600000 + 30 * 60000
   \<and> accessed_within env_utc_plus_1 accessed_last_week 7
   \<and> getTier env_utc_plus_1 accessed_last_week = ''warm''
   \<and> getTier env0 accessed_last_week = ''hot''"
proof -
  have stamp: "sqlite_timestamp 1703572200000 = ''2023-12-26 06:30:00''"
    by code_simp
  have val: "timestamp_value ''2023-12-26 06:30:00'' = Some 1703572200000"
    by code_simp
  have row: "accessed_last_week
      = \<lparr>access_count = Some 0, last_accessed = Some ''2023-12-26 06:30:00''\<rparr>"
    by (simp add: accessed_last_week_def stamp)
  have now: "date_now env_utc_plus_1 = 1704175200000" "date_now env0 = 1704175200000"
    "UTC env_utc_plus_1 = (\<lambda>t. t - 3600000)" "UTC env0 = (\<lambda>t. t)"
    by (simp_all add: env_utc_plus_1_def env0_def)
  have within: "accessed_within env_utc_plus_1 accessed_last_week 7"
    by (simp add: accessed_within_def row val now)
  have warm: "getTier env_utc_plus_1 accessed_last_week = ''warm''"
    by (simp add: getTier_cascade read_within_def count_of_def new_Date_def row val now)
  have hot: "getTier env0 accessed_last_week = ''hot''"
    by (simp add: getTier_cascade read_within_def count_of_def new_Date_def row val now)
  from row val now within warm hot show ?thesis
    by simp
qed

subsection \<open>Priority validation\<close>

text \<open>A level below 0 or above 2 is rejected and the store is left as it was.\<close>

lemma set_priority_rejects_out_of_range:
  assumes "arg_type a = ''decision'' \<or> arg_type a = ''error'' \<or> arg_type a = ''learning''"
    and "arg_priority a < 0 \<or> arg_priority a > 2"
  shows "CallToolRequest env ''set_priority'' a st
       = (''Invalid priority: '' @ number_to_string env (arg_priority a) @
          ''. Use 0 (normal), 1 (high), or 2 (critical)'', st)"
  using assms
  by (auto simp: CallToolRequest_def switch_name_def set_priority_def tableMap_def
      invalid_priority_text_def Let_def)

text \<open>
  C3 (evaluation of the code where the claim fails). The claim says that every priority
  level outside \<open>{0, 1, 2}\<close>, 1.5 included, gets a validation-failure text and changes no
  stored priority. The guard is \<^verbatim>\<open>priority < 0 || priority > 2\<close>, which 1.5 passes: on a
  store holding decision 1 with priority 0, \<^verbatim>\<open>set_priority("decision", 1, 1.5)\<close> stores 1.5
  and replies that the priority was set, the label being \<^verbatim>\<open>undefined\<close> since
  \<^verbatim>\<open>priorityLabels[1.5]\<close> does not exist.
\<close>

theorem set_priority_accepts_fraction:
  "CallToolRequest env ''set_priority''
     (args0\<lparr>arg_type := ''decision'', arg_id := 1, arg_priority := 3 / 2\<rparr>)
     (empty_store\<lparr>decisions := [use_sqlite]\<rparr>)
   = (''Set decision #1 priority to undefined ('' @ fraction_to_string env (3 / 2) @ '')'',
      empty_store\<lparr>decisions := [use_sqlite\<lparr>d_priority := Some (3 / 2)\<rparr>]\<rparr>)
   \<and> d_priority use_sqlite = Some 0"
proof -
  have frac: "number_to_string env (3 / 2) = fraction_to_string env (3 / 2)"
  proof -
    have "\<lfloor>3 / 2 :: rat\<rfloor> = 1" by linarith
    then show ?thesis by (simp add: number_to_string_def)
  qed
  have one: "show_int 1 = ''1''"
    by code_simp
  show ?thesis
    by (simp add: CallToolRequest_def switch_name_def set_priority_def tableMap_def args0_def
        update_priority_def sql_update_def use_sqlite_def empty_store_def priorityLabels_def
        frac one Let_def)
qed

subsection \<open>Sessions\<close>

text \<open>
  C6 (evaluation of the code where the claim fails). The claim says that a store never
  holds two session rows for one (project, workspace) pair, the \<open>NULL\<close> workspace
  included, and that \<^verbatim>\<open>save_session\<close> on an existing pair overwrites its row. Two calls
  \<^verbatim>\<open>save_session(project="app", task="T1")\<close> and \<^verbatim>\<open>save_session(project="app", task="T2")\<close>
  without a workspace, starting from the empty store, leave two rows for
  \<^verbatim>\<open>("app", NULL)\<close>: the first is not overwritten, because a \<open>NULL\<close> workspace never
  conflicts under \<^verbatim>\<open>UNIQUE(project, workspace)\<close>.
\<close>

theorem save_session_default_workspace_twice:
  "map (\<lambda>r. (s_project r, s_workspace r, s_task r))
     (sessions (snd (CallToolRequest env ''save_session'' (args0\<lparr>arg_task := ''T2''\<rparr>)
        (snd (CallToolRequest env ''save_session'' (args0\<lparr>arg_task := ''T1''\<rparr>) empty_store)))))
   = [(''app'', None, ''T1''), (''app'', None, ''T2'')]"
  by (simp add: CallToolRequest_def switch_name_def save_session_def args0_def or_null_def
      truthy_def or_str_def upsertSessionWithWorkspace_def session_conflict_def empty_store_def
      next_rowid_def Let_def)

text \<open>
  C10. \<^verbatim>\<open>clear_session(P)\<close> without a workspace leaves no session row of \<open>P\<close>, whatever
  its workspace, keeps the rows of every other project and touches no other table; its
  reply counts the rows it deleted, or is \<^verbatim>\<open>No sessions to clear\<close> when \<open>P\<close> had none. With a
  workspace \<open>w\<close> the call removes the rows of \<open>(P, w)\<close> and keeps every other row, those of
  other workspaces of \<open>P\<close> included.
\<close>

theorem clear_session_scope:
  "(arg_workspace a = None \<longrightarrow>
      (case CallToolRequest env ''clear_session'' a st of
         (text, st') \<Rightarrow>
           filter (\<lambda>r. s_project r = arg_project a) (sessions st') = []
           \<and> filter (\<lambda>r. s_project r \<noteq> arg_project a) (sessions st')
               = filter (\<lambda>r. s_project r \<noteq> arg_project a) (sessions st)
           \<and> st'\<lparr>sessions := sessions st\<rparr> = st
           \<and> text =
               (if filter (\<lambda>r. s_project r = arg_project a) (sessions st) = []
                then ''No sessions to clear''
                else ''All sessions cleared for '' @ arg_project a @ '' ('' @
                     show_nat (length (filter (\<lambda>r. s_project r = arg_project a) (sessions st))) @
                     '' session(s))'')))
   \<and> (arg_workspace a = Some w \<longrightarrow>
      (case CallToolRequest env ''clear_session'' a st of
         (text, st') \<Rightarrow>
           filter (\<lambda>r. s_project r = arg_project a \<and> s_workspace r = Some w) (sessions st') = []
           \<and> filter (\<lambda>r. \<not> (s_project r = arg_project a \<and> s_workspace r = Some w)) (sessions st')
               = filter (\<lambda>r. \<not> (s_project r = arg_project a \<and> s_workspace r = Some w))
                   (sessions st)
           \<and> st'\<lparr>sessions := sessions st\<rparr> = st))"
proof (intro conjI impI)
  assume "arg_workspace a = None"
  then show "case CallToolRequest env ''clear_session'' a st of
         (text, st') \<Rightarrow>
           filter (\<lambda>r. s_project r = arg_project a) (sessions st') = []
           \<and> filter (\<lambda>r. s_project r \<noteq> arg_project a) (sessions st')
               = filter (\<lambda>r. s_project r \<noteq> arg_project a) (sessions st)
           \<and> st'\<lparr>sessions := sessions st\<rparr> = st
           \<and> text =
               (if filter (\<lambda>r. s_project r = arg_project a) (sessions st) = []
                then ''No sessions to clear''
                else ''All sessions cleared for '' @ arg_project a @ '' ('' @
                     show_nat (length (filter (\<lambda>r. s_project r = arg_project a) (sessions st))) @
                     '' session(s))'')"
    by (simp add: CallToolRequest_def switch_name_def clear_session_def sql_delete_def)
next
  assume "arg_workspace a = Some w"
  then show "case CallToolRequest env ''clear_session'' a st of
         (text, st') \<Rightarrow>
           filter (\<lambda>r. s_project r = arg_project a \<and> s_workspace r = Some w) (sessions st') = []
           \<and> filter (\<lambda>r. \<not> (s_project r = arg_project a \<and> s_workspace r = Some w)) (sessions st')
               = filter (\<lambda>r. \<not> (s_project r = arg_project a \<and> s_workspace r = Some w))
                   (sessions st)
           \<and> st'\<lparr>sessions := sessions st\<rparr> = st"
    by (simp add: CallToolRequest_def switch_name_def clear_session_def sql_delete_def
        deleteSessionWithWorkspace_def session_matches_def)
qed

theorem clear_session_scope_witness:
  "CallToolRequest env0 ''clear_session'' args0 three_sessions
     = (''All sessions cleared for app (2 session(s))'',
        three_sessions\<lparr>sessions := [session_of 3 ''web'' None ''T2'']\<rparr>)
   \<and> CallToolRequest env0 ''clear_session'' args0 empty_store
     = (''No sessions to clear'', empty_store)
   \<and> CallToolRequest env0 ''clear_session'' (args0\<lparr>arg_workspace := Some ''w1''\<rparr>) three_sessions
     = (''Session cleared for app (workspace: w1)'',
        three_sessions\<lparr>sessions :=
          [session_of 1 ''app'' None ''T0'', session_of 3 ''web'' None ''T2'']\<rparr>)"
proof -
  have two: "show_nat (Suc (Suc 0)) = ''2''"
    by code_simp
  have r1: "CallToolRequest env0 ''clear_session'' args0 three_sessions
     = (''All sessions cleared for app (2 session(s))'',
        three_sessions\<lparr>sessions := [session_of 3 ''web'' None ''T2'']\<rparr>)"
    by (simp add: CallToolRequest_def switch_name_def clear_session_def sql_delete_def
        args0_def three_sessions_def session_of_def two)
  have r2: "CallToolRequest env0 ''clear_session'' args0 empty_store
     = (''No sessions to clear'', empty_store)"
    by (simp add: CallToolRequest_def switch_name_def clear_session_def sql_delete_def
        args0_def empty_store_def)
  have r3: "CallToolRequest env0 ''clear_session'' (args0\<lparr>arg_workspace := Some ''w1''\<rparr>)
        three_sessions
     = (''Session cleared for app (workspace: w1)'',
        three_sessions\<lparr>sessions :=
          [session_of 1 ''app'' None ''T0'', session_of 3 ''web'' None ''T2'']\<rparr>)"
    by (simp add: CallToolRequest_def switch_name_def clear_session_def sql_delete_def
        deleteSessionWithWorkspace_def session_matches_def
        args0_def three_sessions_def session_of_def)
  have a0: "arg_workspace args0 = None" "arg_project args0 = ''app''"
    by (simp_all add: args0_def)
  have a1: "arg_workspace (args0\<lparr>arg_workspace := Some ''w1''\<rparr>) = Some ''w1''"
    by simp
  from r1 r2 r3 a0 a1
    clear_session_scope [where a = args0 and env = env0 and st = three_sessions
      and w = "''w1''"]
    clear_session_scope [where a = "args0\<lparr>arg_workspace := Some ''w1''\<rparr>" and env = env0
      and st = three_sessions and w = "''w1''"]
  show ?thesis by simp
qed

subsection \<open>Context upsert\<close>

lemma filter_distinct_key:
  "distinct (map k rows) \<Longrightarrow>
   filter (\<lambda>r. k r = x) rows = [] \<or> (\<exists>r. filter (\<lambda>r. k r = x) rows = [r])"
proof (induction rows)
  case Nil
  then show ?case by simp
next
  case (Cons a rows)
  show ?case
  proof (cases "k a = x")
    case True
    with Cons.prems have "x \<notin> k ` set rows" by auto
    then have "filter (\<lambda>r. k r = x) rows = []"
      by (auto simp: filter_empty_conv)
    with True show ?thesis by simp
  next
    case False
    with Cons show ?thesis by simp
  qed
qed

lemma filter_updated_key:
  "(\<And>r. k (f r) = k r) \<Longrightarrow>
   filter (\<lambda>r. k r = x) (map (\<lambda>r. if k r = x then f r else r) rows)
     = map f (filter (\<lambda>r. k r = x) rows)"
  by (induction rows) auto

text \<open>One upsert keeps the keys distinct and leaves exactly one row for its key.\<close>

lemma upsertContext_row:
  assumes "distinct (map context_key (context_rows st))"
  shows "distinct (map context_key (context_rows (upsertContext env p k v st)))
     \<and> (\<exists>r. filter (\<lambda>r. context_key r = (p, k)) (context_rows (upsertContext env p k v st)) = [r]
            \<and> c_value r = v \<and> c_updated_at r = Some (CURRENT_TIMESTAMP env))"
proof (cases "filter (\<lambda>r. context_key r = (p, k)) (context_rows st) = []")
  case True
  then have fresh: "(p, k) \<notin> context_key ` set (context_rows st)"
    by (auto simp: filter_empty_conv)
  from True have same: "filter (\<lambda>r. c_project r = p \<and> c_key r = k) (context_rows st) = []"
    by (simp add: context_key_def)
  from assms fresh True show ?thesis
    by (simp add: upsertContext_def same Let_def) (simp add: context_key_def)
next
  case False
  with filter_distinct_key [OF assms, of "(p, k)"]
  obtain r0 where r0: "filter (\<lambda>r. context_key r = (p, k)) (context_rows st) = [r0]"
    by blast
  let ?upd = "\<lambda>r. r\<lparr>c_value := v, c_updated_at := Some (CURRENT_TIMESTAMP env)\<rparr>"
  let ?rows = "map (\<lambda>r. if context_key r = (p, k) then ?upd r else r) (context_rows st)"
  from False have st': "context_rows (upsertContext env p k v st) = ?rows"
    by (simp add: upsertContext_def sql_update_def context_key_def)
  have keys: "map context_key ?rows = map context_key (context_rows st)"
    by (simp add: context_key_def)
  have "filter (\<lambda>r. context_key r = (p, k)) ?rows
      = map ?upd (filter (\<lambda>r. context_key r = (p, k)) (context_rows st))"
    by (rule filter_updated_key) (simp add: context_key_def)
  with r0 have one: "filter (\<lambda>r. context_key r = (p, k)) ?rows = [?upd r0]"
    by simp
  have "distinct (map context_key ?rows)"
    unfolding keys by (rule assms)
  with one show ?thesis
    unfolding st' by simp
qed

text \<open>
  C5. On a context table whose (project, key) pairs are distinct, as
  \<^verbatim>\<open>UNIQUE(project, key)\<close> keeps them, \<^verbatim>\<open>set_context(P, k, v1)\<close> followed by
  \<^verbatim>\<open>set_context(P, k, v2)\<close> leaves exactly one row for \<open>(P, k)\<close>; its value is \<open>v2\<close> and its
  \<open>updated_at\<close> is the timestamp of the second call. Neither call raises: both bodies return
  the confirmation text.
\<close>

theorem set_context_twice:
  assumes "distinct (map context_key (context_rows st))"
    and "arg_project a1 = P" and "arg_key a1 = k" and "arg_value a1 = v1"
    and "arg_project a2 = P" and "arg_key a2 = k" and "arg_value a2 = v2"
    and "switch_name envA ''set_context'' a1 st = (r1, st1)"
    and "switch_name envB ''set_context'' a2 st1 = (r2, st2)"
  shows "r1 = Inr (''Context '' @ k @ '' set for '' @ P @ synced envA)
     \<and> r2 = Inr (''Context '' @ k @ '' set for '' @ P @ synced envB)
     \<and> CallToolRequest envB ''set_context'' a2 st1
         = (''Context '' @ k @ '' set for '' @ P @ synced envB, st2)
     \<and> (\<exists>r. filter (\<lambda>r. c_project r = P \<and> c_key r = k) (context_rows st2) = [r]
            \<and> c_value r = v2 \<and> c_updated_at r = Some (CURRENT_TIMESTAMP envB))"
proof -
  from assms have st1: "st1 = upsertContext envA P k v1 st"
    and r1: "r1 = Inr (''Context '' @ k @ '' set for '' @ P @ synced envA)"
    by (auto simp: switch_name_def set_context_def Let_def)
  from assms have st2: "st2 = upsertContext envB P k v2 st1"
    and r2: "r2 = Inr (''Context '' @ k @ '' set for '' @ P @ synced envB)"
    by (auto simp: switch_name_def set_context_def Let_def)
  from assms(9) r2 have call: "CallToolRequest envB ''set_context'' a2 st1
      = (''Context '' @ k @ '' set for '' @ P @ synced envB, st2)"
    by (simp add: CallToolRequest_def)
  from upsertContext_row [OF assms(1), of envA P k v1] st1
  have "distinct (map context_key (context_rows st1))"
    by simp
  from upsertContext_row [OF this, of envB P k v2] st2
  have "\<exists>r. filter (\<lambda>r. context_key r = (P, k)) (context_rows st2) = [r]
            \<and> c_value r = v2 \<and> c_updated_at r = Some (CURRENT_TIMESTAMP envB)"
    by simp
  with r1 r2 call show ?thesis
    by (simp add: context_key_def)
qed

theorem set_context_twice_witness:
  "distinct (map context_key (context_rows empty_store))
   \<and> (\<exists>r. filter (\<lambda>r. c_project r = ''app'' \<and> c_key r = ''sdk_version'')
             (context_rows (snd (switch_name env0 ''set_context'' (sdk_version ''v2'')
                (snd (switch_name env0 ''set_context'' (sdk_version ''v1'') empty_store))))) = [r]
          \<and> c_value r = ''v2'' \<and> c_updated_at r = Some (CURRENT_TIMESTAMP env0))"
proof -
  have d: "distinct (map context_key (context_rows empty_store))"
    by (simp add: empty_store_def)
  have a: "arg_project (sdk_version v) = ''app''" "arg_key (sdk_version v) = ''sdk_version''"
    "arg_value (sdk_version v) = v" for v
    by (simp_all add: sdk_version_def args0_def)
  from set_context_twice [OF d a(1) a(2) a(3) [of "''v1''"] a(1) a(2) a(3) [of "''v2''"]
      surjective_pairing surjective_pairing, where envA = env0 and envB = env0]
  have "\<exists>r. filter (\<lambda>r. c_project r = ''app'' \<and> c_key r = ''sdk_version'')
             (context_rows (snd (switch_name env0 ''set_context'' (sdk_version ''v2'')
                (snd (switch_name env0 ''set_context'' (sdk_version ''v1'') empty_store))))) = [r]
          \<and> c_value r = ''v2'' \<and> c_updated_at r = Some (CURRENT_TIMESTAMP env0)"
    by blast
  with d show ?thesis by blast
qed

subsection \<open>Access tracking\<close>

lemma mset_order_by_desc: "mset (order_by_desc k rows) = mset rows"
  by (simp add: order_by_desc_def)

lemma set_order_by_desc: "set (order_by_desc k rows) = set rows"
  by (simp add: order_by_desc_def)

lemma set_limit_rows: "set (limit_rows n rows) \<subseteq> set rows"
  by (auto simp: limit_rows_def dest: in_set_takeD)

lemma rows_of_sql_limit:
  "rows_of (sql_limit n rows) = (if fits_int64 n then limit_rows \<lfloor>n\<rfloor> rows else [])"
  by (simp add: rows_of_def sql_limit_def)

lemma distinct_map_order_by_desc:
  "distinct (map f rows) \<Longrightarrow> distinct (map f (order_by_desc k rows))"
proof -
  assume d: "distinct (map f rows)"
  have "mset (map f (order_by_desc k rows)) = mset (map f rows)"
    by (simp add: mset_order_by_desc)
  with d show ?thesis
    by (metis mset_eq_imp_distinct_iff)
qed

lemma distinct_map_limit_rows:
  "distinct (map f rows) \<Longrightarrow> distinct (map f (limit_rows n rows))"
  by (simp add: limit_rows_def take_map [symmetric])

lemma selected_rows:
  "set (limit_rows m (order_by_desc k (filter w rows))) \<subseteq> set rows"
  "set (rows_of (sql_limit n (order_by_desc k (filter w rows)))) \<subseteq> set rows"
  "set (order_by_desc k (filter w rows)) \<subseteq> set rows"
  "distinct (map f rows) \<Longrightarrow> distinct (map f (limit_rows m (order_by_desc k (filter w rows))))"
  "distinct (map f rows) \<Longrightarrow>
     distinct (map f (rows_of (sql_limit n (order_by_desc k (filter w rows)))))"
  "distinct (map f rows) \<Longrightarrow> distinct (map f (order_by_desc k (filter w rows)))"
  using set_limit_rows [of m "order_by_desc k (filter w rows)"]
    set_limit_rows [of "\<lfloor>n\<rfloor>" "order_by_desc k (filter w rows)"]
  by (auto simp: set_order_by_desc distinct_map_filter rows_of_sql_limit
      intro!: distinct_map_limit_rows distinct_map_order_by_desc)

lemma recall_decisions_results_rows:
  "set (rows_of (recall_decisions_results a st)) \<subseteq> set (decisions st)"
  "distinct (map d_id (decisions st)) \<Longrightarrow>
     distinct (map d_id (rows_of (recall_decisions_results a st)))"
proof -
  have shape: "rows_of (recall_decisions_results a st)
      = rows_of (getDecisionsByCategory st (arg_project a) (the (or_null (arg_category a)))
          (or_num (arg_limit a) 10))
    \<or> rows_of (recall_decisions_results a st)
      = searchDecisions st (arg_project a) (''%'' @ the (or_null (arg_search a)) @ ''%'')
          (''%'' @ the (or_null (arg_search a)) @ ''%'')
    \<or> rows_of (recall_decisions_results a st)
      = rows_of (getDecisions st (arg_project a) (or_num (arg_limit a) 10))"
    by (simp add: recall_decisions_results_def rows_of_def Let_def split: option.splits)
  show "set (rows_of (recall_decisions_results a st)) \<subseteq> set (decisions st)"
    using shape
    by (auto simp: getDecisions_def getDecisionsByCategory_def searchDecisions_def
        dest: selected_rows(2,3) [THEN subsetD])
  show "distinct (map d_id (rows_of (recall_decisions_results a st)))"
    if "distinct (map d_id (decisions st))"
    using shape that
    by (auto simp: getDecisions_def getDecisionsByCategory_def searchDecisions_def
        selected_rows)
qed

lemma find_solution_results_rows:
  "set (rows_of (find_solution_results a st)) \<subseteq> set (errors st)"
  "distinct (map e_id (errors st)) \<Longrightarrow>
     distinct (map e_id (rows_of (find_solution_results a st)))"
  by (auto simp: find_solution_results_def findSolution_def findSolutionByCategory_def
      rows_of_def Let_def selected_rows split: option.splits
      dest: selected_rows(1) [THEN subsetD])

lemma recall_learnings_results_rows:
  "set (rows_of (recall_learnings_results a st)) \<subseteq> set (learnings st)"
  "distinct (map l_id (learnings st)) \<Longrightarrow>
     distinct (map l_id (rows_of (recall_learnings_results a st)))"
proof -
  have shape: "rows_of (recall_learnings_results a st)
      = searchLearnings st (arg_project a) (''%'' @ the (or_null (arg_search a)) @ ''%'')
    \<or> rows_of (recall_learnings_results a st)
      = rows_of (getLearnings st (arg_project a) (or_num (arg_limit a) 20))"
    by (simp add: recall_learnings_results_def rows_of_def split: option.splits)
  show "set (rows_of (recall_learnings_results a st)) \<subseteq> set (learnings st)"
    using shape
    by (auto simp: getLearnings_def searchLearnings_def
        dest: selected_rows(2,3) [THEN subsetD])
  show "distinct (map l_id (rows_of (recall_learnings_results a st)))"
    if "distinct (map l_id (learnings st))"
    using shape that
    by (auto simp: getLearnings_def searchLearnings_def selected_rows)
qed

lemma track_decisions:
  "distinct (map d_id rs) \<Longrightarrow>
   fold (\<lambda>r. trackDecisionAccess env (d_id r)) rs st
     = st\<lparr>decisions := map (\<lambda>r. if d_id r \<in> d_id ` set rs then touch_decision env r else r)
          (decisions st)\<rparr>"
proof (induction rs arbitrary: st)
  case Nil
  then show ?case by simp
next
  case (Cons x rs)
  then have fresh: "d_id x \<notin> d_id ` set rs" and d: "distinct (map d_id rs)"
    by auto
  have same_id: "d_id (touch_decision env r) = d_id r" for r
    by (simp add: touch_decision_def)
  let ?st = "trackDecisionAccess env (d_id x) st"
  have first: "decisions ?st
      = map (\<lambda>r. if d_id r = d_id x then touch_decision env r else r) (decisions st)"
    and rest: "?st\<lparr>decisions := rows\<rparr> = st\<lparr>decisions := rows\<rparr>" for rows
    by (simp_all add: trackDecisionAccess_def sql_update_def)
  have "fold (\<lambda>r. trackDecisionAccess env (d_id r)) (x # rs) st
      = fold (\<lambda>r. trackDecisionAccess env (d_id r)) rs ?st"
    by simp
  also have "\<dots> = st\<lparr>decisions :=
      map (\<lambda>r. if d_id r \<in> d_id ` set rs then touch_decision env r else r) (decisions ?st)\<rparr>"
    by (simp only: Cons.IH [OF d] rest)
  also have "map (\<lambda>r. if d_id r \<in> d_id ` set rs then touch_decision env r else r) (decisions ?st)
      = map (\<lambda>r. if d_id r \<in> d_id ` set (x # rs) then touch_decision env r else r) (decisions st)"
    using fresh by (auto simp: first same_id)
  finally show ?case .
qed

lemma track_errors:
  "distinct (map e_id rs) \<Longrightarrow>
   fold (\<lambda>r. trackErrorAccess env (e_id r)) rs st
     = st\<lparr>errors := map (\<lambda>r. if e_id r \<in> e_id ` set rs then touch_error env r else r)
          (errors st)\<rparr>"
proof (induction rs arbitrary: st)
  case Nil
  then show ?case by simp
next
  case (Cons x rs)
  then have fresh: "e_id x \<notin> e_id ` set rs" and d: "distinct (map e_id rs)"
    by auto
  have same_id: "e_id (touch_error env r) = e_id r" for r
    by (simp add: touch_error_def)
  let ?st = "trackErrorAccess env (e_id x) st"
  have first: "errors ?st
      = map (\<lambda>r. if e_id r = e_id x then touch_error env r else r) (errors st)"
    and rest: "?st\<lparr>errors := rows\<rparr> = st\<lparr>errors := rows\<rparr>" for rows
    by (simp_all add: trackErrorAccess_def sql_update_def)
  have "fold (\<lambda>r. trackErrorAccess env (e_id r)) (x # rs) st
      = fold (\<lambda>r. trackErrorAccess env (e_id r)) rs ?st"
    by simp
  also have "\<dots> = st\<lparr>errors :=
      map (\<lambda>r. if e_id r \<in> e_id ` set rs then touch_error env r else r) (errors ?st)\<rparr>"
    by (simp only: Cons.IH [OF d] rest)
  also have "map (\<lambda>r. if e_id r \<in> e_id ` set rs then touch_error env r else r) (errors ?st)
      = map (\<lambda>r. if e_id r \<in> e_id ` set (x # rs) then touch_error env r else r) (errors st)"
    using fresh by (auto simp: first same_id)
  finally show ?case .
qed

lemma track_learnings:
  "distinct (map l_id rs) \<Longrightarrow>
   fold (\<lambda>r. trackLearningAccess env (l_id r)) rs st
     = st\<lparr>learnings := map (\<lambda>r. if l_id r \<in> l_id ` set rs then touch_learning env r else r)
          (learnings st)\<rparr>"
proof (induction rs arbitrary: st)
  case Nil
  then show ?case by simp
next
  case (Cons x rs)
  then have fresh: "l_id x \<notin> l_id ` set rs" and d: "distinct (map l_id rs)"
    by auto
  have same_id: "l_id (touch_learning env r) = l_id r" for r
    by (simp add: touch_learning_def)
  let ?st = "trackLearningAccess env (l_id x) st"
  have first: "learnings ?st
      = map (\<lambda>r. if l_id r = l_id x then touch_learning env r else r) (learnings st)"
    and rest: "?st\<lparr>learnings := rows\<rparr> = st\<lparr>learnings := rows\<rparr>" for rows
    by (simp_all add: trackLearningAccess_def sql_update_def)
  have "fold (\<lambda>r. trackLearningAccess env (l_id r)) (x # rs) st
      = fold (\<lambda>r. trackLearningAccess env (l_id r)) rs ?st"
    by simp
  also have "\<dots> = st\<lparr>learnings :=
      map (\<lambda>r. if l_id r \<in> l_id ` set rs then touch_learning env r else r) (learnings ?st)\<rparr>"
    by (simp only: Cons.IH [OF d] rest)
  also have "map (\<lambda>r. if l_id r \<in> l_id ` set rs then touch_learning env r else r) (learnings ?st)
      = map (\<lambda>r. if l_id r \<in> l_id ` set (x # rs) then touch_learning env r else r) (learnings st)"
    using fresh by (auto simp: first same_id)
  finally show ?case .
qed

lemma returned_iff:
  assumes "distinct (map f rows)" and "set rs \<subseteq> set rows" and "r \<in> set rows"
  shows "(f r \<in> f ` set rs) = (r \<in> set rs)"
proof -
  from assms(1) have "inj_on f (set rows)"
    by (simp add: distinct_map)
  with assms(2,3) show ?thesis
    by (auto dest: inj_onD)
qed

lemma map_returned:
  assumes "distinct (map f rows)" and "set rs \<subseteq> set rows"
  shows "map (\<lambda>r. if f r \<in> f ` set rs then g r else r) rows
       = map (\<lambda>r. if r \<in> set rs then g r else r) rows"
  using returned_iff [OF assms] by (simp cong: map_cong)

text \<open>
  C7. On tables whose ids are distinct (they are primary keys), each recall-style read
  (\<^verbatim>\<open>recall_decisions\<close>, \<^verbatim>\<open>find_solution\<close>, \<^verbatim>\<open>recall_learnings\<close>) leaves the store as it
  was except for the rows it returns: each of those has its \<open>access_count\<close> raised by
  exactly 1 (from 0 when it was \<open>NULL\<close>) and its \<open>last_accessed\<close> set to the current
  timestamp, and no other field of any row changes. The list-style reads
  (\<^verbatim>\<open>list_decisions\<close>, \<^verbatim>\<open>list_errors\<close>) leave the whole store unchanged.
\<close>

theorem recall_reads_track_access:
  assumes "distinct (map d_id (decisions st))"
    and "distinct (map e_id (errors st))"
    and "distinct (map l_id (learnings st))"
  shows "snd (CallToolRequest env ''recall_decisions'' a st)
       = st\<lparr>decisions :=
            map (\<lambda>r. if r \<in> set (rows_of (recall_decisions_results a st))
                     then r\<lparr>d_access_count :=
                              Some ((case d_access_count r of None \<Rightarrow> 0 | Some n \<Rightarrow> n) + 1),
                            d_last_accessed := Some (CURRENT_TIMESTAMP env)\<rparr>
                     else r)
              (decisions st)\<rparr>
     \<and> snd (CallToolRequest env ''find_solution'' a st)
       = st\<lparr>errors :=
            map (\<lambda>r. if r \<in> set (rows_of (find_solution_results a st))
                     then r\<lparr>e_access_count :=
                              Some ((case e_access_count r of None \<Rightarrow> 0 | Some n \<Rightarrow> n) + 1),
                            e_last_accessed := Some (CURRENT_TIMESTAMP env)\<rparr>
                     else r)
              (errors st)\<rparr>
     \<and> snd (CallToolRequest env ''recall_learnings'' a st)
       = st\<lparr>learnings :=
            map (\<lambda>r. if r \<in> set (rows_of (recall_learnings_results a st))
                     then r\<lparr>l_access_count :=
                              Some ((case l_access_count r of None \<Rightarrow> 0 | Some n \<Rightarrow> n) + 1),
                            l_last_accessed := Some (CURRENT_TIMESTAMP env)\<rparr>
                     else r)
              (learnings st)\<rparr>
     \<and> snd (CallToolRequest env ''list_decisions'' a st) = st
     \<and> snd (CallToolRequest env ''list_errors'' a st) = st"
proof (intro conjI)
  show "snd (CallToolRequest env ''recall_decisions'' a st)
       = st\<lparr>decisions :=
            map (\<lambda>r. if r \<in> set (rows_of (recall_decisions_results a st))
                     then r\<lparr>d_access_count :=
                              Some ((case d_access_count r of None \<Rightarrow> 0 | Some n \<Rightarrow> n) + 1),
                            d_last_accessed := Some (CURRENT_TIMESTAMP env)\<rparr>
                     else r)
              (decisions st)\<rparr>"
  proof (cases "recall_decisions_results a st")
    case (Inl e)
    then show ?thesis
      by (simp add: CallToolRequest_def switch_name_def recall_decisions_def rows_of_def)
  next
    case (Inr rows)
    with recall_decisions_results_rows [where a = a and st = st] assms(1)
    have sub: "set rows \<subseteq> set (decisions st)" and d: "distinct (map d_id rows)"
      by (simp_all add: rows_of_def)
    from track_decisions [OF d, where env = env and st = st]
      map_returned [OF assms(1) sub, of "touch_decision env"] Inr
    show ?thesis
      by (simp add: CallToolRequest_def switch_name_def recall_decisions_def Let_def
          touch_decision_def coalesce_def rows_of_def)
  qed
next
  show "snd (CallToolRequest env ''find_solution'' a st)
       = st\<lparr>errors :=
            map (\<lambda>r. if r \<in> set (rows_of (find_solution_results a st))
                     then r\<lparr>e_access_count :=
                              Some ((case e_access_count r of None \<Rightarrow> 0 | Some n \<Rightarrow> n) + 1),
                            e_last_accessed := Some (CURRENT_TIMESTAMP env)\<rparr>
                     else r)
              (errors st)\<rparr>"
  proof (cases "find_solution_results a st")
    case (Inl e)
    then show ?thesis
      by (simp add: CallToolRequest_def switch_name_def find_solution_def rows_of_def)
  next
    case (Inr rows)
    with find_solution_results_rows [where a = a and st = st] assms(2)
    have sub: "set rows \<subseteq> set (errors st)" and d: "distinct (map e_id rows)"
      by (simp_all add: rows_of_def)
    from track_errors [OF d, where env = env and st = st]
      map_returned [OF assms(2) sub, of "touch_error env"] Inr
    show ?thesis
      by (simp add: CallToolRequest_def switch_name_def find_solution_def Let_def
          touch_error_def coalesce_def rows_of_def)
  qed
next
  show "snd (CallToolRequest env ''recall_learnings'' a st)
       = st\<lparr>learnings :=
            map (\<lambda>r. if r \<in> set (rows_of (recall_learnings_results a st))
                     then r\<lparr>l_access_count :=
                              Some ((case l_access_count r of None \<Rightarrow> 0 | Some n \<Rightarrow> n) + 1),
                            l_last_accessed := Some (CURRENT_TIMESTAMP env)\<rparr>
                     else r)
              (learnings st)\<rparr>"
  proof (cases "recall_learnings_results a st")
    case (Inl e)
    then show ?thesis
      by (simp add: CallToolRequest_def switch_name_def recall_learnings_def rows_of_def)
  next
    case (Inr rows)
    with recall_learnings_results_rows [where a = a and st = st] assms(3)
    have sub: "set rows \<subseteq> set (learnings st)" and d: "distinct (map l_id rows)"
      by (simp_all add: rows_of_def)
    from track_learnings [OF d, where env = env and st = st]
      map_returned [OF assms(3) sub, of "touch_learning env"] Inr
    show ?thesis
      by (simp add: CallToolRequest_def switch_name_def recall_learnings_def Let_def
          touch_learning_def coalesce_def rows_of_def)
  qed
next
  show "snd (CallToolRequest env ''list_decisions'' a st) = st"
    by (simp add: CallToolRequest_def switch_name_def list_decisions_def split: sum.splits)
next
  show "snd (CallToolRequest env ''list_errors'' a st) = st"
    by (simp add: CallToolRequest_def switch_name_def list_errors_def split: sum.splits)
qed

theorem recall_reads_track_access_witness:
  "distinct (map d_id (decisions two_projects))
   \<and> distinct (map e_id (errors two_projects))
   \<and> distinct (map l_id (learnings two_projects))
   \<and> recall_decisions_results args0 two_projects = Inr [use_sqlite]
   \<and> decisions (snd (CallToolRequest env0 ''recall_decisions'' args0 two_projects))
       = [use_sqlite\<lparr>d_access_count := Some 1, d_last_accessed := Some ''2024-01-02 06:00:00''\<rparr>,
          use_sqlite\<lparr>d_id := 2, d_project := ''web''\<rparr>]
   \<and> snd (CallToolRequest env0 ''list_decisions'' args0 two_projects) = two_projects"
proof -
  have d: "distinct (map d_id (decisions two_projects))"
    "distinct (map e_id (errors two_projects))"
    "distinct (map l_id (learnings two_projects))"
    by (simp_all add: two_projects_def empty_store_def use_sqlite_def)
  have rows: "recall_decisions_results args0 two_projects = Inr [use_sqlite]"
    by (simp add: recall_decisions_results_def args0_def or_null_def truthy_def or_num_def
        getDecisions_def two_projects_def empty_store_def use_sqlite_def not_archived_def
        sql_limit_def fits_int64_def limit_rows_def order_by_desc_def)
  have now: "CURRENT_TIMESTAMP env0 = ''2024-01-02 06:00:00''"
    unfolding CURRENT_TIMESTAMP_def env0_def by code_simp
  have tbl: "decisions two_projects = [use_sqlite, use_sqlite\<lparr>d_id := 2, d_project := ''web''\<rparr>]"
    by (simp add: two_projects_def empty_store_def)
  have other: "use_sqlite\<lparr>d_id := 2, d_project := ''web''\<rparr> \<noteq> use_sqlite"
    and count: "d_access_count use_sqlite = Some 0"
    by (simp_all add: use_sqlite_def)
  from recall_reads_track_access [OF d, of env0 args0] d rows
  show ?thesis
    by (simp add: now tbl other count rows_of_def)
qed

subsection \<open>Recalling and archiving decisions\<close>












end
